theory Spec2Isabelle
  imports Complex_Main
begin

section \<open>LearnNest: enrollment lifecycle and progress computation\<close>

text \<open>
  A shallow embedding of the enrollment and progress handlers of \<^verbatim>\<open>src/app.py\<close>:
  \<^verbatim>\<open>update_student_progress\<close>, \<^verbatim>\<open>send_notification\<close>, the decorator
  \<^verbatim>\<open>instructor_required\<close>, the five instructor transitions
  (\<^verbatim>\<open>instructor_approve_enrollment\<close>, \<^verbatim>\<open>instructor_reject_enrollment\<close>,
  \<^verbatim>\<open>instructor_block_student\<close>, \<^verbatim>\<open>instructor_remove_student\<close>,
  \<^verbatim>\<open>instructor_unblock_student\<close>), the two progress setters
  (\<^verbatim>\<open>instructor_set_progress_bulk\<close>, \<^verbatim>\<open>instructor_set_student_progress\<close>) and
  \<^verbatim>\<open>student_enroll\<close>.

  The SQLite database is a record of tables, each table the list of its rows in rowid
  order. A handler takes the database and returns its response together with the database
  it leaves behind. A \<^verbatim>\<open>SELECT ... fetchone()\<close> is \<open>find\<close> on the list, a
  \<^verbatim>\<open>COUNT(*)\<close> is the length of a \<open>filter\<close>, an \<^verbatim>\<open>UPDATE ... WHERE\<close> is a
  \<open>map\<close> that rewrites the matching rows, a \<^verbatim>\<open>JOIN\<close> is an existence test on the
  joined table.

  Percentages are SQLite \<^verbatim>\<open>REAL\<close> and Python \<^verbatim>\<open>float\<close> in the source. A
  stored percentage is an exact rational or \<^verbatim>\<open>NULL\<close>, so IEEE rounding is outside the
  model; the value Python's \<^verbatim>\<open>float\<close> parses from a form field is a rational, an
  infinity or NaN.
  Timestamps are natural numbers, handed to the handlers that write
  \<^verbatim>\<open>CURRENT_TIMESTAMP\<close>. The text of notification messages and the columns no handler
  of this development reads (\<^verbatim>\<open>payment_screenshot\<close>, user e-mail, ...) are left out.
\<close>

subsection \<open>Tables\<close>

text \<open>
  The column \<^verbatim>\<open>enrollments.status\<close> is \<^verbatim>\<open>TEXT\<close>; the handlers write and compare
  the four literals \<^verbatim>\<open>'pending'\<close>, \<^verbatim>\<open>'approved'\<close>, \<^verbatim>\<open>'rejected'\<close>,
  \<^verbatim>\<open>'blocked'\<close> only.
\<close>

datatype enrollment_status = Pending | Approved | Rejected | Blocked

record user =
  u_id :: nat
  u_full_name :: string

record course =
  c_id :: nat
  course_code :: string
  instructor_id :: nat
  max_students :: int
  enrollment_key_hash :: "string option"
  c_is_active :: bool

record enrollment =
  e_id :: nat
  student_id :: nat
  course_id :: nat
  status :: enrollment_status
  enrolled_at :: nat
  approved_at :: "nat option"
  progress_percentage :: "rat option"
  manual_progress_override :: "rat option"

text \<open>
  A row of \<^verbatim>\<open>assignments\<close>. The field \<open>a_is_active\<close> is the value the queries of
  \<^verbatim>\<open>update_student_progress\<close> ask for under the column name \<^verbatim>\<open>is_active\<close>; the
  database holds such a column only when the table's column list (\<open>assignments_columns\<close>
  below) names it.
\<close>

record assignment =
  a_id :: nat
  a_course_id :: nat
  assignment_type :: string
  a_is_active :: bool

record assignment_submission =
  s_assignment_id :: nat
  s_student_id :: nat

record notification =
  n_user_id :: nat
  n_title :: string
  n_type :: string
  n_related_id :: "nat option"

text \<open>
  \<open>enrollments_seq\<close> is the \<^verbatim>\<open>sqlite_sequence\<close> entry of the
  \<^verbatim>\<open>AUTOINCREMENT\<close> key of \<^verbatim>\<open>enrollments\<close>: the largest id handed out so far.
  \<open>assignments_columns\<close> is the list of columns the \<^verbatim>\<open>assignments\<close> table of the
  connected database has.
\<close>

record db =
  users :: "user list"
  courses :: "course list"
  enrollments :: "enrollment list"
  enrollments_seq :: nat
  assignments_columns :: "string list"
  assignments :: "assignment list"
  assignment_submissions :: "assignment_submission list"
  notifications :: "notification list"

text \<open>
  The columns of \<^verbatim>\<open>assignments\<close> as \<^verbatim>\<open>init_db\<close> creates them: the
  \<^verbatim>\<open>CREATE TABLE IF NOT EXISTS assignments\<close> statement followed by the four
  \<^verbatim>\<open>ALTER TABLE assignments ADD COLUMN\<close> statements. No statement of the source adds a
  column \<^verbatim>\<open>is_active\<close> to this table.
\<close>

definition init_db_assignments_columns :: "string list" where
  "init_db_assignments_columns =
     [''id'', ''course_id'', ''title'', ''description'', ''instructions'', ''due_date'',
      ''max_points'', ''allow_late_submission'', ''created_at'',
      ''assignment_type'', ''status'', ''published_at'', ''ai_context'']"

text \<open>The logged-in user of Flask-Login, class \<^verbatim>\<open>User\<close>.\<close>

record current_user =
  cu_id :: nat
  is_authenticated :: bool
  role :: string
  instructor_approval_status :: string

definition is_admin :: "current_user \<Rightarrow> bool" where
  "is_admin cu = (role cu = ''admin'')"

definition is_instructor :: "current_user \<Rightarrow> bool" where
  "is_instructor cu = (role cu = ''instructor'')"

definition is_student :: "current_user \<Rightarrow> bool" where
  "is_student cu = (role cu = ''student'')"

definition is_instructor_approved :: "current_user \<Rightarrow> bool" where
  "is_instructor_approved cu =
     (if \<not> is_instructor cu then True else instructor_approval_status cu = ''approved'')"

subsection \<open>Responses\<close>

text \<open>
  The handlers answer with a flashed message and a redirect, or with a JSON body and an
  HTTP status. Each distinct failure answer of the source is one constructor:
  \<^item> \<open>LoginRequired\<close>: not authenticated (\<^verbatim>\<open>login_required\<close>, \<^verbatim>\<open>instructor_required\<close>);
  \<^item> \<open>InstructorRequired\<close>, \<open>InstructorNotApproved\<close>: the other two refusals of
    \<^verbatim>\<open>instructor_required\<close>;
  \<^item> \<open>StudentRequired\<close>: "Access denied. Student account required.";
  \<^item> \<open>FieldsRequired\<close>: "Course code and enrollment key are required.";
  \<^item> \<open>NotFound\<close>: "Course with code ... not found or is inactive.";
  \<^item> \<open>InvalidKey\<close>: "Invalid enrollment key. Please check with your instructor.";
  \<^item> \<open>AlreadyRequested\<close>: "You have already requested enrollment for this course.";
  \<^item> \<open>CourseFull\<close>: "Course is full. No more enrollments accepted.";
  \<^item> \<open>EnrollmentNotFound\<close>: the one answer of the five transitions when their query
    finds no row, "Enrollment not found or already processed." (approve, reject) and
    "Enrollment not found or cannot be blocked." (likewise removed, unblocked). The source
    gives it for an absent id, for a row in the wrong status and for a row of a course
    the acting user does not own alike;
  \<^item> \<open>AccessDenied\<close>: HTTP 403 "Course not found or access denied" of the progress
    setters, when no course has the given id and the acting user as instructor;
  \<^item> \<open>InvalidArgument\<close>: HTTP 400 of the progress setters;
  \<^item> \<open>ServerError\<close>: HTTP 500.
\<close>

datatype error =
    LoginRequired | InstructorRequired | InstructorNotApproved | StudentRequired
  | FieldsRequired | NotFound | InvalidKey | AlreadyRequested | CourseFull
  | EnrollmentNotFound | AccessDenied | InvalidArgument | ServerError

text \<open>Exceptions raised inside a handler and caught by one of its \<^verbatim>\<open>except\<close> clauses.\<close>

datatype py_exception = OperationalError string | TypeError

text \<open>
  A Python \<^verbatim>\<open>float\<close>: a number, one of the two infinities, or NaN. Every comparison
  with NaN is false, so NaN passes the test \<^verbatim>\<open>progress < 0 or progress > 100\<close> of the
  progress setters; the infinities do not. \<^verbatim>\<open>sqlite3\<close> binds NaN as \<^verbatim>\<open>NULL\<close>.
\<close>

datatype pyfloat = Num rat | PlusInf | MinusInf | NaN

definition out_of_range :: "pyfloat \<Rightarrow> bool" where
  "out_of_range progress =
     (case progress of
        Num x \<Rightarrow> x < 0 \<or> x > 100
      | PlusInf \<Rightarrow> True
      | MinusInf \<Rightarrow> True
      | NaN \<Rightarrow> False)"

text \<open>
  The value a bound \<^verbatim>\<open>float\<close> parameter stores in a \<^verbatim>\<open>REAL\<close> column. The setters
  bind values that have passed the range test only, so the infinities are never bound.
\<close>

definition bound_real :: "pyfloat \<Rightarrow> rat option" where
  "bound_real progress = (case progress of Num x \<Rightarrow> Some x | _ \<Rightarrow> None)"

text \<open>The JSON body of a successful progress setter: \<^verbatim>\<open>progress\<close> and \<^verbatim>\<open>is_manual\<close>.\<close>

record progress_reply =
  reply_progress :: pyfloat
  reply_is_manual :: bool

subsection \<open>Helpers of the source\<close>

text \<open>
  \<^verbatim>\<open>COALESCE(e.manual_progress_override, e.progress_percentage) as display_progress\<close>,
  the expression every listing of the source shows.
\<close>

definition display_progress :: "enrollment \<Rightarrow> rat option" where
  "display_progress e =
     (case manual_progress_override e of Some m \<Rightarrow> Some m | None \<Rightarrow> progress_percentage e)"

text \<open>
  \<^verbatim>\<open>send_notification\<close> inserts and commits on a connection of its own and emits on the
  socket, all inside \<^verbatim>\<open>try\<close>; on any exception it logs and returns \<^verbatim>\<open>False\<close>.
  SQLite admits one writer. When the calling handler has run an \<^verbatim>\<open>UPDATE\<close> on its own
  connection and not yet committed (\<open>caller_in_transaction\<close>), that connection holds the
  write lock for as long as \<^verbatim>\<open>send_notification\<close> waits, so the insert ends in
  \<^verbatim>\<open>OperationalError: database is locked\<close> and nothing is stored or emitted. Otherwise
  whether the insert goes through is decided by the storage layer: the input \<open>delivered\<close>
  (per user id). No caller looks at the returned flag.
\<close>

definition send_notification ::
  "bool \<Rightarrow> (nat \<Rightarrow> bool) \<Rightarrow> nat \<Rightarrow> string \<Rightarrow> string \<Rightarrow> nat option \<Rightarrow> db
     \<Rightarrow> bool \<times> db" where
  "send_notification caller_in_transaction delivered user_id title notification_type
       related_id d =
     (if caller_in_transaction then (False, d)
      else if delivered user_id
      then (True, d\<lparr>notifications := notifications d @
              [\<lparr>n_user_id = user_id, n_title = title, n_type = notification_type,
                n_related_id = related_id\<rparr>]\<rparr>)
      else (False, d))"

text \<open>
  An SQL statement that names a column the table does not have fails when it is prepared:
  \<^verbatim>\<open>sqlite3.OperationalError: no such column\<close>.
\<close>

definition check_assignments_columns :: "db \<Rightarrow> string list \<Rightarrow> py_exception + unit" where
  "check_assignments_columns d cols =
     (case filter (\<lambda>c. c \<notin> set (assignments_columns d)) cols of
        [] \<Rightarrow> Inr ()
      | c # _ \<Rightarrow> Inl (OperationalError (''no such column: '' @ c)))"

text \<open>
  \<^verbatim>\<open>SELECT COUNT(*) FROM assignments WHERE course_id = ? AND assignment_type = 'quiz'
  AND is_active = 1\<close>
\<close>

definition total_quizzes_query :: "db \<Rightarrow> nat \<Rightarrow> py_exception + nat" where
  "total_quizzes_query d cid =
     (case check_assignments_columns d [''course_id'', ''assignment_type'', ''is_active''] of
        Inl ex \<Rightarrow> Inl ex
      | Inr _ \<Rightarrow>
          Inr (length (filter (\<lambda>a. a_course_id a = cid \<and> assignment_type a = ''quiz''
                                    \<and> a_is_active a) (assignments d))))"

text \<open>
  \<^verbatim>\<open>SELECT COUNT(DISTINCT a.id) FROM assignments a INNER JOIN assignment_submissions sub
  ON a.id = sub.assignment_id WHERE a.course_id = ? AND a.assignment_type = 'quiz'
  AND a.is_active = 1 AND sub.student_id = ?\<close>
\<close>

definition submitted_quizzes_query :: "db \<Rightarrow> nat \<Rightarrow> nat \<Rightarrow> py_exception + nat" where
  "submitted_quizzes_query d cid sid =
     (case check_assignments_columns d
             [''id'', ''id'', ''course_id'', ''assignment_type'', ''is_active''] of
        Inl ex \<Rightarrow> Inl ex
      | Inr _ \<Rightarrow>
          Inr (length (remdups (map a_id
                 (filter (\<lambda>a. a_course_id a = cid \<and> assignment_type a = ''quiz''
                             \<and> a_is_active a
                             \<and> (\<exists>sub \<in> set (assignment_submissions d).
                                   a_id a = s_assignment_id sub \<and> s_student_id sub = sid))
                         (assignments d))))))"

text \<open>
  The body of the \<^verbatim>\<open>try\<close> of \<^verbatim>\<open>update_student_progress\<close>: the override is read
  first, then the two counts, then \<^verbatim>\<open>progress_percentage\<close> is written for every row
  of the pair and committed. The result is what the function returns and the database
  after the commit.
\<close>

definition update_student_progress_try ::
  "db \<Rightarrow> nat \<Rightarrow> nat \<Rightarrow> py_exception + (rat \<times> db)" where
  "update_student_progress_try d sid cid =
     (let enrollment = find (\<lambda>e. student_id e = sid \<and> course_id e = cid) (enrollments d)
      in case total_quizzes_query d cid of
           Inl ex \<Rightarrow> Inl ex
         | Inr total_quizzes \<Rightarrow>
             (case (if total_quizzes = 0 then Inr 0
                    else (case submitted_quizzes_query d cid sid of
                            Inl ex \<Rightarrow> Inl ex
                          | Inr submitted_quizzes \<Rightarrow>
                              Inr ((of_nat submitted_quizzes / of_nat total_quizzes) * 100))) of
                Inl ex \<Rightarrow> Inl ex
              | Inr auto_progress \<Rightarrow>
                  (let d' = d\<lparr>enrollments :=
                              map (\<lambda>r. if student_id r = sid \<and> course_id r = cid
                                       then r\<lparr>progress_percentage := Some auto_progress\<rparr>
                                       else r)
                                  (enrollments d)\<rparr>
                   in Inr (case enrollment of
                             None \<Rightarrow> auto_progress
                           | Some e \<Rightarrow>
                               (case manual_progress_override e of
                                  Some m \<Rightarrow> m
                                | None \<Rightarrow> auto_progress),
                           d'))))"

text \<open>
  \<^verbatim>\<open>update_student_progress\<close>: \<^verbatim>\<open>except Exception\<close> prints the exception and
  returns 0. The exceptions of the model are raised by the two counting statements, before
  anything is written.
\<close>

definition update_student_progress :: "db \<Rightarrow> nat \<Rightarrow> nat \<Rightarrow> rat \<times> db" where
  "update_student_progress d sid cid =
     (case update_student_progress_try d sid cid of
        Inl ex \<Rightarrow> (0, d)
      | Inr r \<Rightarrow> r)"

text \<open>The decorator \<^verbatim>\<open>instructor_required\<close>: \<open>None\<close> when the wrapped handler runs.\<close>

definition instructor_required :: "current_user \<Rightarrow> error option" where
  "instructor_required cu =
     (if \<not> is_authenticated cu then Some LoginRequired
      else if is_admin cu then None
      else if \<not> is_instructor cu then Some InstructorRequired
      else if \<not> is_instructor_approved cu then Some InstructorNotApproved
      else None)"

text \<open>
  The query that opens each of the five transitions:
  \<^verbatim>\<open>SELECT e.* ... FROM enrollments e JOIN courses c ON e.course_id = c.id
  JOIN users u ON e.student_id = u.id
  WHERE e.id = ? AND c.instructor_id = ? AND e.status = ?\<close>.
\<close>

definition owns_course :: "db \<Rightarrow> nat \<Rightarrow> nat \<Rightarrow> bool" where
  "owns_course d uid cid = (\<exists>c \<in> set (courses d). c_id c = cid \<and> instructor_id c = uid)"

definition select_enrollment ::
  "db \<Rightarrow> nat \<Rightarrow> nat \<Rightarrow> enrollment_status \<Rightarrow> enrollment option" where
  "select_enrollment d enrollment_id uid st =
     find (\<lambda>e. e_id e = enrollment_id \<and> status e = st
               \<and> owns_course d uid (course_id e)
               \<and> (\<exists>u \<in> set (users d). u_id u = student_id e))
          (enrollments d)"

text \<open>\<^verbatim>\<open>INSERT INTO notifications\<close> on the handler's own connection.\<close>

definition insert_notification :: "nat \<Rightarrow> string \<Rightarrow> string \<Rightarrow> nat option \<Rightarrow> db \<Rightarrow> db" where
  "insert_notification user_id title notification_type related_id d =
     d\<lparr>notifications := notifications d @
        [\<lparr>n_user_id = user_id, n_title = title, n_type = notification_type,
          n_related_id = related_id\<rparr>]\<rparr>"

subsection \<open>Instructor transitions\<close>

text \<open>
  Each transition runs behind \<^verbatim>\<open>instructor_required\<close>, looks the enrollment up with
  the ownership query for the status it starts from, and answers \<open>EnrollmentNotFound\<close>
  without touching anything when the query finds no row. Otherwise it rewrites the rows
  \<^verbatim>\<open>WHERE id = ?\<close>, inserts a notification for the student and commits. The
  \<^verbatim>\<open>except\<close> clause of these handlers (rollback and an error flash) is reached only when
  the storage layer itself fails, which the model does not include.
\<close>

definition update_enrollments_by_id ::
  "nat \<Rightarrow> (enrollment \<Rightarrow> enrollment) \<Rightarrow> db \<Rightarrow> db" where
  "update_enrollments_by_id enrollment_id f d =
     d\<lparr>enrollments := map (\<lambda>r. if e_id r = enrollment_id then f r else r) (enrollments d)\<rparr>"

text \<open>
  \<^verbatim>\<open>UPDATE enrollments SET status = 'approved', approved_at = CURRENT_TIMESTAMP
  WHERE id = ?\<close>; \<open>now\<close> is the value of \<^verbatim>\<open>CURRENT_TIMESTAMP\<close>.
\<close>

definition instructor_approve_enrollment ::
  "nat \<Rightarrow> current_user \<Rightarrow> nat \<Rightarrow> db \<Rightarrow> (error + unit) \<times> db" where
  "instructor_approve_enrollment now cu enrollment_id d =
     (case instructor_required cu of
        Some err \<Rightarrow> (Inl err, d)
      | None \<Rightarrow>
          (case select_enrollment d enrollment_id (cu_id cu) Pending of
             None \<Rightarrow> (Inl EnrollmentNotFound, d)
           | Some enrollment \<Rightarrow>
               (Inr (),
                insert_notification (student_id enrollment) ''Enrollment Approved'' ''success''
                  (Some (course_id enrollment))
                  (update_enrollments_by_id enrollment_id
                     (\<lambda>r. r\<lparr>status := Approved, approved_at := Some now\<rparr>) d))))"

text \<open>\<^verbatim>\<open>UPDATE enrollments SET status = 'rejected' WHERE id = ?\<close>\<close>

definition instructor_reject_enrollment ::
  "current_user \<Rightarrow> nat \<Rightarrow> db \<Rightarrow> (error + unit) \<times> db" where
  "instructor_reject_enrollment cu enrollment_id d =
     (case instructor_required cu of
        Some err \<Rightarrow> (Inl err, d)
      | None \<Rightarrow>
          (case select_enrollment d enrollment_id (cu_id cu) Pending of
             None \<Rightarrow> (Inl EnrollmentNotFound, d)
           | Some enrollment \<Rightarrow>
               (Inr (),
                insert_notification (student_id enrollment) ''Enrollment Not Approved''
                  ''warning'' (Some (course_id enrollment))
                  (update_enrollments_by_id enrollment_id (\<lambda>r. r\<lparr>status := Rejected\<rparr>) d))))"

text \<open>\<^verbatim>\<open>UPDATE enrollments SET status = 'blocked' WHERE id = ?\<close>\<close>

definition instructor_block_student ::
  "current_user \<Rightarrow> nat \<Rightarrow> db \<Rightarrow> (error + unit) \<times> db" where
  "instructor_block_student cu enrollment_id d =
     (case instructor_required cu of
        Some err \<Rightarrow> (Inl err, d)
      | None \<Rightarrow>
          (case select_enrollment d enrollment_id (cu_id cu) Approved of
             None \<Rightarrow> (Inl EnrollmentNotFound, d)
           | Some enrollment \<Rightarrow>
               (Inr (),
                insert_notification (student_id enrollment) ''Course Access Blocked''
                  ''warning'' (Some (course_id enrollment))
                  (update_enrollments_by_id enrollment_id (\<lambda>r. r\<lparr>status := Blocked\<rparr>) d))))"

text \<open>\<^verbatim>\<open>DELETE FROM enrollments WHERE id = ?\<close>\<close>

definition instructor_remove_student ::
  "current_user \<Rightarrow> nat \<Rightarrow> db \<Rightarrow> (error + unit) \<times> db" where
  "instructor_remove_student cu enrollment_id d =
     (case instructor_required cu of
        Some err \<Rightarrow> (Inl err, d)
      | None \<Rightarrow>
          (case select_enrollment d enrollment_id (cu_id cu) Approved of
             None \<Rightarrow> (Inl EnrollmentNotFound, d)
           | Some enrollment \<Rightarrow>
               (Inr (),
                insert_notification (student_id enrollment) ''Removed from Course''
                  ''warning'' (Some (course_id enrollment))
                  (d\<lparr>enrollments := filter (\<lambda>r. e_id r \<noteq> enrollment_id) (enrollments d)\<rparr>))))"

text \<open>\<^verbatim>\<open>UPDATE enrollments SET status = 'approved' WHERE id = ?\<close>\<close>

definition instructor_unblock_student ::
  "current_user \<Rightarrow> nat \<Rightarrow> db \<Rightarrow> (error + unit) \<times> db" where
  "instructor_unblock_student cu enrollment_id d =
     (case instructor_required cu of
        Some err \<Rightarrow> (Inl err, d)
      | None \<Rightarrow>
          (case select_enrollment d enrollment_id (cu_id cu) Blocked of
             None \<Rightarrow> (Inl EnrollmentNotFound, d)
           | Some enrollment \<Rightarrow>
               (Inr (),
                insert_notification (student_id enrollment) ''Course Access Restored''
                  ''success'' (Some (course_id enrollment))
                  (update_enrollments_by_id enrollment_id (\<lambda>r. r\<lparr>status := Approved\<rparr>) d))))"

subsection \<open>Progress setters\<close>

text \<open>
  \<^verbatim>\<open>UPDATE enrollments SET manual_progress_override = ?, progress_percentage = ?
  WHERE course_id = ? AND student_id = ?\<close>, with the same value bound to both
  parameters; the statement of both setters. \<open>progress\<close> is the value as the columns
  store it.
\<close>

definition set_manual_progress :: "nat \<Rightarrow> nat \<Rightarrow> rat option \<Rightarrow> db \<Rightarrow> db" where
  "set_manual_progress cid sid progress d =
     d\<lparr>enrollments :=
         map (\<lambda>r. if course_id r = cid \<and> student_id r = sid
                  then r\<lparr>manual_progress_override := progress,
                         progress_percentage := progress\<rparr>
                  else r)
             (enrollments d)\<rparr>"

text \<open>
  \<^verbatim>\<open>UPDATE enrollments SET manual_progress_override = NULL
  WHERE course_id = ? AND student_id = ?\<close>
\<close>

definition clear_manual_progress :: "nat \<Rightarrow> nat \<Rightarrow> db \<Rightarrow> db" where
  "clear_manual_progress cid sid d =
     d\<lparr>enrollments :=
         map (\<lambda>r. if course_id r = cid \<and> student_id r = sid
                  then r\<lparr>manual_progress_override := None\<rparr> else r)
             (enrollments d)\<rparr>"

text \<open>
  The value of the form field \<^verbatim>\<open>progress\<close> is \<open>None\<close> when the field is absent and
  the submitted text otherwise. Python's \<^verbatim>\<open>float\<close> is the parameter \<open>py_float\<close>,
  \<open>None\<close> where it raises \<^verbatim>\<open>ValueError\<close>.

  \<^verbatim>\<open>instructor_set_progress_bulk\<close>: the students are the approved enrollments of the
  course that join a user row; the loop updates and notifies one student at a time and the
  handler commits after the loop, so every \<^verbatim>\<open>send_notification\<close> of the loop runs
  while the handler's connection holds its uncommitted update.
\<close>

definition bulk_students :: "db \<Rightarrow> nat \<Rightarrow> nat list" where
  "bulk_students d cid =
     map student_id
       (filter (\<lambda>e. course_id e = cid \<and> status e = Approved
                    \<and> (\<exists>u \<in> set (users d). u_id u = student_id e))
               (enrollments d))"

definition bulk_step :: "(nat \<Rightarrow> bool) \<Rightarrow> nat \<Rightarrow> pyfloat \<Rightarrow> nat \<Rightarrow> db \<Rightarrow> db" where
  "bulk_step delivered cid progress sid d =
     snd (send_notification True delivered sid ''Course Progress Updated'' ''info'' (Some cid)
            (set_manual_progress cid sid (bound_real progress) d))"

definition instructor_set_progress_bulk ::
  "(string \<Rightarrow> pyfloat option) \<Rightarrow> (nat \<Rightarrow> bool) \<Rightarrow> current_user \<Rightarrow> nat \<Rightarrow> string option \<Rightarrow> db
     \<Rightarrow> (error + nat) \<times> db" where
  "instructor_set_progress_bulk py_float delivered cu cid progress d =
     (case instructor_required cu of
        Some err \<Rightarrow> (Inl err, d)
      | None \<Rightarrow>
          if \<not> owns_course d (cu_id cu) cid then (Inl AccessDenied, d)
          else
            (case progress of
               None \<Rightarrow> (Inl InvalidArgument, d)
             | Some text \<Rightarrow>
                 if text = [] then (Inl InvalidArgument, d)
                 else
                   (case py_float text of
                      None \<Rightarrow> (Inl InvalidArgument, d)
                    | Some p \<Rightarrow>
                        if out_of_range p then (Inl InvalidArgument, d)
                        else
                          (let students = bulk_students d cid
                           in (Inr (length students),
                               fold (bulk_step delivered cid p) students d)))))"

text \<open>
  \<^verbatim>\<open>instructor_set_student_progress\<close>. An absent or empty field clears the override,
  commits, calls \<^verbatim>\<open>update_student_progress\<close>, notifies (no write of the handler is
  pending then) and answers with the value \<^verbatim>\<open>update_student_progress\<close> returned.
  Any other text is parsed and range-checked and written to both columns; then
  \<^verbatim>\<open>send_notification\<close> is called, with the update still uncommitted, and the handler
  commits. The success body of that branch reads \<^verbatim>\<open>student["full_name"]\<close> after the
  commit, where \<^verbatim>\<open>student\<close> is the \<^verbatim>\<open>users\<close> row of the student id or \<^verbatim>\<open>None\<close>:
  on \<^verbatim>\<open>None\<close> it raises \<^verbatim>\<open>TypeError\<close> and the request ends as HTTP 500 with the
  update already committed.
\<close>

definition instructor_set_student_progress ::
  "(string \<Rightarrow> pyfloat option) \<Rightarrow> (nat \<Rightarrow> bool) \<Rightarrow> current_user \<Rightarrow> nat \<Rightarrow> nat
     \<Rightarrow> string option \<Rightarrow> db \<Rightarrow> (error + progress_reply) \<times> db" where
  "instructor_set_student_progress py_float delivered cu cid sid progress d =
     (case instructor_required cu of
        Some err \<Rightarrow> (Inl err, d)
      | None \<Rightarrow>
          if \<not> owns_course d (cu_id cu) cid then (Inl AccessDenied, d)
          else if progress = None \<or> progress = Some [] then
            (let (auto_progress, d2) =
                   update_student_progress (clear_manual_progress cid sid d) sid cid;
                 d3 = snd (send_notification False delivered sid ''Course Progress Updated''
                             ''info'' (Some cid) d2)
             in (Inr \<lparr>reply_progress = Num auto_progress, reply_is_manual = False\<rparr>, d3))
          else
            (case py_float (case progress of Some text \<Rightarrow> text | None \<Rightarrow> []) of
               None \<Rightarrow> (Inl InvalidArgument, d)
             | Some p \<Rightarrow>
                 if out_of_range p then (Inl InvalidArgument, d)
                 else
                   (let student = find (\<lambda>u. u_id u = sid) (users d);
                        d2 = snd (send_notification True delivered sid
                                    ''Course Progress Updated'' ''info'' (Some cid)
                                    (set_manual_progress cid sid (bound_real p) d))
                    in case student of
                         None \<Rightarrow> (Inl ServerError, d2)
                       | Some u \<Rightarrow>
                           (Inr \<lparr>reply_progress = p, reply_is_manual = True\<rparr>, d2))))"

subsection \<open>Enrollment request\<close>

text \<open>
  \<^verbatim>\<open>student_enroll\<close>, from the point where \<^verbatim>\<open>course_code\<close> (stripped and
  upper-cased) and \<^verbatim>\<open>enrollment_key\<close> (stripped) have been read from the form.
  \<^verbatim>\<open>check_password_hash\<close> of Werkzeug is a parameter. The new row takes the next
  \<^verbatim>\<open>AUTOINCREMENT\<close> id and the column defaults: \<^verbatim>\<open>enrolled_at\<close> the current time,
  \<^verbatim>\<open>approved_at\<close> and \<^verbatim>\<open>manual_progress_override\<close> null, \<^verbatim>\<open>progress_percentage\<close> 0.
\<close>

definition select_course :: "db \<Rightarrow> string \<Rightarrow> course option" where
  "select_course d code =
     find (\<lambda>c. course_code c = code \<and> c_is_active c
               \<and> (\<exists>u \<in> set (users d). u_id u = instructor_id c))
          (courses d)"

definition count_approved :: "db \<Rightarrow> nat \<Rightarrow> nat" where
  "count_approved d cid =
     length (filter (\<lambda>e. course_id e = cid \<and> status e = Approved) (enrollments d))"

definition next_enrollment_id :: "db \<Rightarrow> nat" where
  "next_enrollment_id d = Suc (fold max (map e_id (enrollments d)) (enrollments_seq d))"

definition new_enrollment :: "nat \<Rightarrow> nat \<Rightarrow> nat \<Rightarrow> db \<Rightarrow> enrollment" where
  "new_enrollment now sid cid d =
     \<lparr>e_id = next_enrollment_id d, student_id = sid, course_id = cid, status = Pending,
      enrolled_at = now, approved_at = None, progress_percentage = Some 0,
      manual_progress_override = None\<rparr>"

definition key_rejected :: "(string \<Rightarrow> string \<Rightarrow> bool) \<Rightarrow> course \<Rightarrow> string \<Rightarrow> bool" where
  "key_rejected check_password_hash c enrollment_key =
     (case enrollment_key_hash c of
        None \<Rightarrow> True
      | Some h \<Rightarrow> h = [] \<or> \<not> check_password_hash h enrollment_key)"

definition student_enroll ::
  "(string \<Rightarrow> string \<Rightarrow> bool) \<Rightarrow> nat \<Rightarrow> current_user \<Rightarrow> string \<Rightarrow> string \<Rightarrow> db
     \<Rightarrow> (error + unit) \<times> db" where
  "student_enroll check_password_hash now cu code enrollment_key d =
     (if \<not> is_authenticated cu then (Inl LoginRequired, d)
      else if \<not> is_student cu then (Inl StudentRequired, d)
      else if code = [] \<or> enrollment_key = [] then (Inl FieldsRequired, d)
      else
        (case select_course d code of
           None \<Rightarrow> (Inl NotFound, d)
         | Some c \<Rightarrow>
             if key_rejected check_password_hash c enrollment_key then (Inl InvalidKey, d)
             else if \<exists>e \<in> set (enrollments d). student_id e = cu_id cu \<and> course_id e = c_id c
               then (Inl AlreadyRequested, d)
             else if int (count_approved d (c_id c)) \<ge> max_students c
               then (Inl CourseFull, d)
             else
               (Inr (),
                insert_notification (instructor_id c) ''New Enrollment Request'' ''info''
                  (Some (c_id c))
                  (d\<lparr>enrollments := enrollments d @ [new_enrollment now (cu_id cu) (c_id c) d],
                     enrollments_seq := next_enrollment_id d\<rparr>))))"

subsection \<open>A sample database\<close>

text \<open>
  A database as \<^verbatim>\<open>init_db\<close> lays it out, used to run the handlers on concrete input:
  instructor 1 owns the course \<^verbatim>\<open>CS101\<close> of capacity 1, instructor 2 owns nothing,
  users 10 and 11 are students. The course has four quizzes; student 10 has submitted
  three of them.
\<close>

definition sample_check_password_hash :: "string \<Rightarrow> string \<Rightarrow> bool" where
  "sample_check_password_hash h k = (h = ''hash:'' @ k)"

definition sample_py_float :: "string \<Rightarrow> pyfloat option" where
  "sample_py_float text =
     (if text = ''90'' then Some (Num 90)
      else if text = ''150'' then Some (Num 150)
      else if text = ''nan'' then Some NaN
      else None)"

definition instructor1 :: current_user where
  "instructor1 = \<lparr>cu_id = 1, is_authenticated = True, role = ''instructor'',
                  instructor_approval_status = ''approved''\<rparr>"

definition instructor2 :: current_user where
  "instructor2 = \<lparr>cu_id = 2, is_authenticated = True, role = ''instructor'',
                  instructor_approval_status = ''approved''\<rparr>"

definition student10 :: current_user where
  "student10 = \<lparr>cu_id = 10, is_authenticated = True, role = ''student'',
                instructor_approval_status = ''approved''\<rparr>"

definition student11 :: current_user where
  "student11 = \<lparr>cu_id = 11, is_authenticated = True, role = ''student'',
                instructor_approval_status = ''approved''\<rparr>"

definition cs101 :: course where
  "cs101 = \<lparr>c_id = 1, course_code = ''CS101'', instructor_id = 1, max_students = 1,
            enrollment_key_hash = Some ''hash:sesame'', c_is_active = True\<rparr>"

definition sample_db :: db where
  "sample_db =
     \<lparr>users = [\<lparr>u_id = 1, u_full_name = ''Ines''\<rparr>, \<lparr>u_id = 2, u_full_name = ''Ivo''\<rparr>,
               \<lparr>u_id = 10, u_full_name = ''Ada''\<rparr>, \<lparr>u_id = 11, u_full_name = ''Bob''\<rparr>],
      courses = [cs101],
      enrollments = [],
      enrollments_seq = 0,
      assignments_columns = init_db_assignments_columns,
      assignments =
        [\<lparr>a_id = 1, a_course_id = 1, assignment_type = ''quiz'', a_is_active = True\<rparr>,
         \<lparr>a_id = 2, a_course_id = 1, assignment_type = ''quiz'', a_is_active = True\<rparr>,
         \<lparr>a_id = 3, a_course_id = 1, assignment_type = ''quiz'', a_is_active = True\<rparr>,
         \<lparr>a_id = 4, a_course_id = 1, assignment_type = ''quiz'', a_is_active = True\<rparr>],
      assignment_submissions =
        [\<lparr>s_assignment_id = 1, s_student_id = 10\<rparr>, \<lparr>s_assignment_id = 2, s_student_id = 10\<rparr>,
         \<lparr>s_assignment_id = 3, s_student_id = 10\<rparr>],
      notifications = []\<rparr>"

text \<open>Student 10 has requested \<^verbatim>\<open>CS101\<close> and instructor 1 has approved the request.\<close>

definition sample_db_approved :: db where
  "sample_db_approved =
     snd (instructor_approve_enrollment 7 instructor1 1
            (snd (student_enroll sample_check_password_hash 5 student10 ''CS101'' ''sesame''
                    sample_db)))"

text \<open>Instructor 1 has then blocked student 10.\<close>

definition sample_db_blocked :: db where
  "sample_db_blocked = snd (instructor_block_student instructor1 1 sample_db_approved)"

text \<open>
  The same data in a database whose \<^verbatim>\<open>assignments\<close> table does have a column
  \<^verbatim>\<open>is_active\<close> (a schema \<^verbatim>\<open>init_db\<close> does not produce), and that database after
  one run of \<^verbatim>\<open>update_student_progress\<close> for student 10.
\<close>

definition sample_db_with_is_active :: db where
  "sample_db_with_is_active =
     sample_db_approved\<lparr>assignments_columns := init_db_assignments_columns @ [''is_active'']\<rparr>"

definition sample_db_recomputed :: db where
  "sample_db_recomputed = snd (update_student_progress sample_db_with_is_active 10 1)"

text \<open>
  Students 10 and 11 have both requested \<^verbatim>\<open>CS101\<close> while nobody was approved, and
  instructor 1 has then approved the request of student 10.
\<close>

definition sample_db_two_pending :: db where
  "sample_db_two_pending =
     snd (student_enroll sample_check_password_hash 6 student11 ''CS101'' ''sesame''
            (snd (student_enroll sample_check_password_hash 5 student10 ''CS101'' ''sesame''
                    sample_db)))"

definition sample_db_one_of_two_approved :: db where
  "sample_db_one_of_two_approved =
     snd (instructor_approve_enrollment 7 instructor1 1 sample_db_two_pending)"

text \<open>Instructor 1 has set the progress of student 10 to 90 by hand.\<close>

definition sample_db_overridden :: db where
  "sample_db_overridden =
     snd (instructor_set_student_progress sample_py_float (\<lambda>u. True) instructor1 1 10
            (Some ''90'') sample_db_approved)"

section \<open>Properties\<close>

subsection \<open>Enrollment request\<close>

lemma select_course_None:
  "\<forall>c \<in> set (courses d). course_code c \<noteq> code \<or> \<not> c_is_active c \<Longrightarrow> select_course d code = None"
  by (auto simp: select_course_def find_None_iff)

text \<open>
  Claim C2. For an enrollment request of a logged-in student that carries a course code and
  a key, \<^verbatim>\<open>student_enroll\<close> applies its checks in this order and answers with the first
  that fails, leaving the database as it was: \<open>NotFound\<close> when no course has the code or
  every course with the code is inactive; \<open>InvalidKey\<close> when the key does not match the
  stored hash of the course; \<open>AlreadyRequested\<close> when an enrollment of this student in this
  course exists, whatever its status; \<open>CourseFull\<close> when the number of approved enrollments
  of the course is at least \<^verbatim>\<open>max_students\<close>. Otherwise it succeeds, and the enrollments
  afterwards are the old rows, untouched, followed by exactly one new row of this student
  and course with status \<open>Pending\<close>.
\<close>

theorem student_enroll_contract:
  assumes "is_authenticated cu" and "is_student cu" and "code \<noteq> []" and "enrollment_key \<noteq> []"
  shows "((\<forall>c \<in> set (courses d). course_code c \<noteq> code \<or> \<not> c_is_active c) \<longrightarrow>
            student_enroll chk now cu code enrollment_key d = (Inl NotFound, d))
       \<and> (\<forall>c. select_course d code = Some c \<longrightarrow>
            (key_rejected chk c enrollment_key \<longrightarrow>
               student_enroll chk now cu code enrollment_key d = (Inl InvalidKey, d))
          \<and> (\<not> key_rejected chk c enrollment_key
               \<and> (\<exists>e \<in> set (enrollments d). student_id e = cu_id cu \<and> course_id e = c_id c) \<longrightarrow>
               student_enroll chk now cu code enrollment_key d = (Inl AlreadyRequested, d))
          \<and> (\<not> key_rejected chk c enrollment_key
               \<and> (\<forall>e \<in> set (enrollments d). \<not> (student_id e = cu_id cu \<and> course_id e = c_id c))
               \<and> max_students c \<le> int (count_approved d (c_id c)) \<longrightarrow>
               student_enroll chk now cu code enrollment_key d = (Inl CourseFull, d))
          \<and> (\<not> key_rejected chk c enrollment_key
               \<and> (\<forall>e \<in> set (enrollments d). \<not> (student_id e = cu_id cu \<and> course_id e = c_id c))
               \<and> int (count_approved d (c_id c)) < max_students c \<longrightarrow>
               fst (student_enroll chk now cu code enrollment_key d) = Inr ()
               \<and> enrollments (snd (student_enroll chk now cu code enrollment_key d))
                   = enrollments d @ [new_enrollment now (cu_id cu) (c_id c) d]
               \<and> status (new_enrollment now (cu_id cu) (c_id c) d) = Pending
               \<and> student_id (new_enrollment now (cu_id cu) (c_id c) d) = cu_id cu
               \<and> course_id (new_enrollment now (cu_id cu) (c_id c) d) = c_id c))"
proof (intro conjI allI impI)
  assume "\<forall>c \<in> set (courses d). course_code c \<noteq> code \<or> \<not> c_is_active c"
  then have "select_course d code = None" by (rule select_course_None)
  with assms show "student_enroll chk now cu code enrollment_key d = (Inl NotFound, d)"
    by (simp add: student_enroll_def)
next
  fix c assume "select_course d code = Some c" "key_rejected chk c enrollment_key"
  with assms show "student_enroll chk now cu code enrollment_key d = (Inl InvalidKey, d)"
    by (simp add: student_enroll_def)
next
  fix c assume "select_course d code = Some c"
    "\<not> key_rejected chk c enrollment_key
       \<and> (\<exists>e \<in> set (enrollments d). student_id e = cu_id cu \<and> course_id e = c_id c)"
  with assms show "student_enroll chk now cu code enrollment_key d = (Inl AlreadyRequested, d)"
    by (simp add: student_enroll_def)
next
  fix c assume "select_course d code = Some c"
    "\<not> key_rejected chk c enrollment_key
       \<and> (\<forall>e \<in> set (enrollments d). \<not> (student_id e = cu_id cu \<and> course_id e = c_id c))
       \<and> max_students c \<le> int (count_approved d (c_id c))"
  with assms show "student_enroll chk now cu code enrollment_key d = (Inl CourseFull, d)"
    by (simp add: student_enroll_def)
next
  fix c assume c: "select_course d code = Some c"
    and ok: "\<not> key_rejected chk c enrollment_key
       \<and> (\<forall>e \<in> set (enrollments d). \<not> (student_id e = cu_id cu \<and> course_id e = c_id c))
       \<and> int (count_approved d (c_id c)) < max_students c"
  from assms c ok show "fst (student_enroll chk now cu code enrollment_key d) = Inr ()"
    by (simp add: student_enroll_def)
  from assms c ok show "enrollments (snd (student_enroll chk now cu code enrollment_key d))
                   = enrollments d @ [new_enrollment now (cu_id cu) (c_id c) d]"
    by (simp add: student_enroll_def insert_notification_def)
  show "status (new_enrollment now (cu_id cu) (c_id c) d) = Pending"
    by (simp add: new_enrollment_def)
  show "student_id (new_enrollment now (cu_id cu) (c_id c) d) = cu_id cu"
    by (simp add: new_enrollment_def)
  show "course_id (new_enrollment now (cu_id cu) (c_id c) d) = c_id c"
    by (simp add: new_enrollment_def)
qed

theorem student_enroll_contract_witness:
  "student_enroll sample_check_password_hash 8 student11 ''XX999'' ''sesame'' sample_db_approved
     = (Inl NotFound, sample_db_approved)
   \<and> student_enroll sample_check_password_hash 8 student11 ''CS101'' ''wrong'' sample_db_approved
     = (Inl InvalidKey, sample_db_approved)
   \<and> student_enroll sample_check_password_hash 8 student10 ''CS101'' ''sesame'' sample_db_approved
     = (Inl AlreadyRequested, sample_db_approved)
   \<and> student_enroll sample_check_password_hash 8 student11 ''CS101'' ''sesame'' sample_db_approved
     = (Inl CourseFull, sample_db_approved)
   \<and> fst (student_enroll sample_check_password_hash 5 student10 ''CS101'' ''sesame'' sample_db)
     = Inr ()
   \<and> enrollments
       (snd (student_enroll sample_check_password_hash 5 student10 ''CS101'' ''sesame'' sample_db))
     = [\<lparr>e_id = 1, student_id = 10, course_id = 1, status = Pending, enrolled_at = 5,
         approved_at = None, progress_percentage = Some 0, manual_progress_override = None\<rparr>]"
proof -
  have s10: "is_authenticated student10" "is_student student10"
    by (simp_all add: student10_def is_student_def)
  have s11: "is_authenticated student11" "is_student student11"
    by (simp_all add: student11_def is_student_def)
  have sel: "select_course sample_db_approved ''CS101'' = Some cs101"
            "select_course sample_db ''CS101'' = Some cs101"
    by code_simp+
  have unknown: "\<forall>c \<in> set (courses sample_db_approved). course_code c \<noteq> ''XX999'' \<or> \<not> c_is_active c"
    by code_simp
  have wrong: "key_rejected sample_check_password_hash cs101 ''wrong''"
    by code_simp
  have right: "\<not> key_rejected sample_check_password_hash cs101 ''sesame''"
    by code_simp
  have dup: "\<exists>e \<in> set (enrollments sample_db_approved).
               student_id e = cu_id student10 \<and> course_id e = c_id cs101"
    by code_simp
  have nodup11: "\<forall>e \<in> set (enrollments sample_db_approved).
               \<not> (student_id e = cu_id student11 \<and> course_id e = c_id cs101)"
    by code_simp
  have full: "max_students cs101 \<le> int (count_approved sample_db_approved (c_id cs101))"
    by code_simp
  have nodup10: "\<forall>e \<in> set (enrollments sample_db).
               \<not> (student_id e = cu_id student10 \<and> course_id e = c_id cs101)"
    by code_simp
  have room: "int (count_approved sample_db (c_id cs101)) < max_students cs101"
    by code_simp
  have new: "new_enrollment 5 (cu_id student10) (c_id cs101) sample_db
     = \<lparr>e_id = 1, student_id = 10, course_id = 1, status = Pending, enrolled_at = 5,
         approved_at = None, progress_percentage = Some 0, manual_progress_override = None\<rparr>"
    by code_simp
  have empty: "enrollments sample_db = []"
    by (simp add: sample_db_def)
  note a = student_enroll_contract [OF s11, of "''XX999''" "''sesame''" sample_db_approved
             sample_check_password_hash 8]
  note b = student_enroll_contract [OF s11, of "''CS101''" "''wrong''" sample_db_approved
             sample_check_password_hash 8]
  note c = student_enroll_contract [OF s10, of "''CS101''" "''sesame''" sample_db_approved
             sample_check_password_hash 8]
  note e = student_enroll_contract [OF s11, of "''CS101''" "''sesame''" sample_db_approved
             sample_check_password_hash 8]
  note f = student_enroll_contract [OF s10, of "''CS101''" "''sesame''" sample_db
             sample_check_password_hash 5]
  from a unknown have 1: "student_enroll sample_check_password_hash 8 student11 ''XX999'' ''sesame''
      sample_db_approved = (Inl NotFound, sample_db_approved)" by simp
  from b sel wrong have 2: "student_enroll sample_check_password_hash 8 student11 ''CS101''
      ''wrong'' sample_db_approved = (Inl InvalidKey, sample_db_approved)" by simp
  from c sel right dup have 3: "student_enroll sample_check_password_hash 8 student10 ''CS101''
      ''sesame'' sample_db_approved = (Inl AlreadyRequested, sample_db_approved)" by simp
  from e sel right nodup11 full have 4: "student_enroll sample_check_password_hash 8 student11
      ''CS101'' ''sesame'' sample_db_approved = (Inl CourseFull, sample_db_approved)" by simp
  from f sel right nodup10 room have 5:
    "fst (student_enroll sample_check_password_hash 5 student10 ''CS101'' ''sesame'' sample_db)
       = Inr ()
     \<and> enrollments
         (snd (student_enroll sample_check_password_hash 5 student10 ''CS101'' ''sesame'' sample_db))
       = enrollments sample_db @ [new_enrollment 5 (cu_id student10) (c_id cs101) sample_db]"
    by simp
  from 1 2 3 4 5 new empty show ?thesis by simp
qed

subsection \<open>What each handler does to the enrollments\<close>

lemma select_enrollment_Some:
  "select_enrollment d enrollment_id uid st = Some e \<Longrightarrow>
     e \<in> set (enrollments d) \<and> e_id e = enrollment_id \<and> status e = st
     \<and> owns_course d uid (course_id e)"
  by (auto simp: select_enrollment_def find_Some_iff)

lemma approve_success:
  assumes "fst (instructor_approve_enrollment now cu enrollment_id d) = Inr ()"
  shows "enrollments (snd (instructor_approve_enrollment now cu enrollment_id d))
           = map (\<lambda>r. if e_id r = enrollment_id
                       then r\<lparr>status := Approved, approved_at := Some now\<rparr> else r)
                 (enrollments d)"
    and "\<exists>e \<in> set (enrollments d). e_id e = enrollment_id \<and> status e = Pending
            \<and> owns_course d (cu_id cu) (course_id e)"
  using assms
  by (auto simp: instructor_approve_enrollment_def insert_notification_def
        update_enrollments_by_id_def split: option.splits dest: select_enrollment_Some)

lemma approve_failure:
  "fst (instructor_approve_enrollment now cu enrollment_id d) \<noteq> Inr () \<Longrightarrow>
     snd (instructor_approve_enrollment now cu enrollment_id d) = d"
  by (auto simp: instructor_approve_enrollment_def split: option.splits)

lemma reject_success:
  assumes "fst (instructor_reject_enrollment cu enrollment_id d) = Inr ()"
  shows "enrollments (snd (instructor_reject_enrollment cu enrollment_id d))
           = map (\<lambda>r. if e_id r = enrollment_id then r\<lparr>status := Rejected\<rparr> else r)
                 (enrollments d)"
    and "\<exists>e \<in> set (enrollments d). e_id e = enrollment_id \<and> status e = Pending
            \<and> owns_course d (cu_id cu) (course_id e)"
  using assms
  by (auto simp: instructor_reject_enrollment_def insert_notification_def
        update_enrollments_by_id_def split: option.splits dest: select_enrollment_Some)

lemma reject_failure:
  "fst (instructor_reject_enrollment cu enrollment_id d) \<noteq> Inr () \<Longrightarrow>
     snd (instructor_reject_enrollment cu enrollment_id d) = d"
  by (auto simp: instructor_reject_enrollment_def split: option.splits)

lemma block_success:
  assumes "fst (instructor_block_student cu enrollment_id d) = Inr ()"
  shows "enrollments (snd (instructor_block_student cu enrollment_id d))
           = map (\<lambda>r. if e_id r = enrollment_id then r\<lparr>status := Blocked\<rparr> else r)
                 (enrollments d)"
    and "\<exists>e \<in> set (enrollments d). e_id e = enrollment_id \<and> status e = Approved
            \<and> owns_course d (cu_id cu) (course_id e)"
  using assms
  by (auto simp: instructor_block_student_def insert_notification_def
        update_enrollments_by_id_def split: option.splits dest: select_enrollment_Some)

lemma block_failure:
  "fst (instructor_block_student cu enrollment_id d) \<noteq> Inr () \<Longrightarrow>
     snd (instructor_block_student cu enrollment_id d) = d"
  by (auto simp: instructor_block_student_def split: option.splits)

lemma unblock_success:
  assumes "fst (instructor_unblock_student cu enrollment_id d) = Inr ()"
  shows "enrollments (snd (instructor_unblock_student cu enrollment_id d))
           = map (\<lambda>r. if e_id r = enrollment_id then r\<lparr>status := Approved\<rparr> else r)
                 (enrollments d)"
    and "\<exists>e \<in> set (enrollments d). e_id e = enrollment_id \<and> status e = Blocked
            \<and> owns_course d (cu_id cu) (course_id e)"
  using assms
  by (auto simp: instructor_unblock_student_def insert_notification_def
        update_enrollments_by_id_def split: option.splits dest: select_enrollment_Some)

lemma unblock_failure:
  "fst (instructor_unblock_student cu enrollment_id d) \<noteq> Inr () \<Longrightarrow>
     snd (instructor_unblock_student cu enrollment_id d) = d"
  by (auto simp: instructor_unblock_student_def split: option.splits)

lemma remove_success:
  assumes "fst (instructor_remove_student cu enrollment_id d) = Inr ()"
  shows "enrollments (snd (instructor_remove_student cu enrollment_id d))
           = filter (\<lambda>r. e_id r \<noteq> enrollment_id) (enrollments d)"
    and "\<exists>e \<in> set (enrollments d). e_id e = enrollment_id \<and> status e = Approved
            \<and> owns_course d (cu_id cu) (course_id e)"
  using assms
  by (auto simp: instructor_remove_student_def insert_notification_def
        split: option.splits dest: select_enrollment_Some)

lemma remove_failure:
  "fst (instructor_remove_student cu enrollment_id d) \<noteq> Inr () \<Longrightarrow>
     snd (instructor_remove_student cu enrollment_id d) = d"
  by (auto simp: instructor_remove_student_def split: option.splits)

lemma enroll_success:
  assumes "fst (student_enroll chk now cu code enrollment_key d) = Inr ()"
  shows "\<exists>c. select_course d code = Some c
            \<and> enrollments (snd (student_enroll chk now cu code enrollment_key d))
                = enrollments d @ [new_enrollment now (cu_id cu) (c_id c) d]"
  using assms
  by (auto simp: student_enroll_def insert_notification_def split: option.splits if_splits)

lemma enroll_failure:
  "fst (student_enroll chk now cu code enrollment_key d) \<noteq> Inr () \<Longrightarrow>
     snd (student_enroll chk now cu code enrollment_key d) = d"
  by (auto simp: student_enroll_def split: option.splits if_splits)

lemma map_frame: "(\<And>r. f (g r) = f r) \<Longrightarrow> map f (map g rows) = map f rows"
  by (induction rows) auto

lemma update_student_progress_cases:
  "update_student_progress d sid cid = (0, d)
   \<or> (\<exists>p v. update_student_progress d sid cid =
              (v, d\<lparr>enrollments :=
                     map (\<lambda>r. if student_id r = sid \<and> course_id r = cid
                              then r\<lparr>progress_percentage := p\<rparr> else r)
                         (enrollments d)\<rparr>))"
  by (auto simp: update_student_progress_def update_student_progress_try_def Let_def
        split: sum.splits if_splits)

lemma approved_at_update_student_progress:
  "map approved_at (enrollments (snd (update_student_progress d sid cid)))
     = map approved_at (enrollments d)"
  using update_student_progress_cases [of d sid cid]
  by (auto simp: map_frame)

lemma approved_at_set_manual_progress:
  "map approved_at (enrollments (set_manual_progress cid sid p d)) = map approved_at (enrollments d)"
  by (simp add: set_manual_progress_def map_frame)

lemma approved_at_clear_manual_progress:
  "map approved_at (enrollments (clear_manual_progress cid sid d)) = map approved_at (enrollments d)"
  by (simp add: clear_manual_progress_def map_frame)

lemma enrollments_send_notification:
  "enrollments (snd (send_notification locked delivered uid title ty rel d)) = enrollments d"
  by (simp add: send_notification_def)

lemma approved_at_bulk_fold:
  "map approved_at (enrollments (fold (bulk_step delivered cid p) sids d))
     = map approved_at (enrollments d)"
  by (induction sids arbitrary: d)
     (simp_all add: bulk_step_def enrollments_send_notification approved_at_set_manual_progress)

lemma approved_at_set_progress_bulk:
  "map approved_at (enrollments (snd (instructor_set_progress_bulk py_float delivered cu cid progress d)))
     = map approved_at (enrollments d)"
  by (simp add: instructor_set_progress_bulk_def approved_at_bulk_fold Let_def
        split: option.splits)

lemma approved_at_set_student_progress:
  "map approved_at
     (enrollments (snd (instructor_set_student_progress py_float delivered cu cid sid progress d)))
     = map approved_at (enrollments d)"
  by (auto simp: instructor_set_student_progress_def Let_def enrollments_send_notification
        approved_at_set_manual_progress approved_at_update_student_progress
        approved_at_clear_manual_progress
        split: option.splits prod.splits
        dest!: arg_cong [where f = snd])

lemma approved_at_reject:
  "map approved_at (enrollments (snd (instructor_reject_enrollment cu enrollment_id d)))
     = map approved_at (enrollments d)"
  by (cases "fst (instructor_reject_enrollment cu enrollment_id d) = Inr ()")
     (simp_all add: reject_success(1) reject_failure map_frame)

lemma approved_at_remove:
  "map approved_at (enrollments (snd (instructor_remove_student cu enrollment_id d)))
     = map approved_at (filter (\<lambda>r. e_id r \<noteq> enrollment_id) (enrollments d))
   \<or> snd (instructor_remove_student cu enrollment_id d) = d"
  by (cases "fst (instructor_remove_student cu enrollment_id d) = Inr ()")
     (simp_all add: remove_success(1) remove_failure)

subsection \<open>The approval timestamp\<close>

text \<open>
  Claim C5. A new enrollment is created pending with \<^verbatim>\<open>approved_at\<close> null. The approval
  of a pending enrollment is the one transition that writes \<^verbatim>\<open>approved_at\<close>: it sets
  the status to approved and the timestamp to the current time on the rows of the given
  id. Blocking (approved to blocked) and unblocking (blocked to approved) rewrite the
  status of the rows of the given id and nothing else: once the status is masked the rows
  before and after are equal, and the list of \<^verbatim>\<open>approved_at\<close> values is the same.
  Rejecting, recomputing progress and setting progress leave every \<^verbatim>\<open>approved_at\<close> as it
  was, and removing only deletes rows.
\<close>

theorem approved_at_lifecycle:
  "(fst (student_enroll chk now cu code enrollment_key d) = Inr () \<longrightarrow>
      (\<exists>e. enrollments (snd (student_enroll chk now cu code enrollment_key d))
              = enrollments d @ [e]
            \<and> status e = Pending \<and> approved_at e = None))
   \<and> (fst (instructor_approve_enrollment now cu enrollment_id d) = Inr () \<longrightarrow>
        enrollments (snd (instructor_approve_enrollment now cu enrollment_id d))
          = map (\<lambda>r. if e_id r = enrollment_id
                      then r\<lparr>status := Approved, approved_at := Some now\<rparr> else r)
                (enrollments d)
        \<and> (\<exists>e \<in> set (enrollments d). e_id e = enrollment_id \<and> status e = Pending))
   \<and> (fst (instructor_block_student cu enrollment_id d) = Inr () \<longrightarrow>
        enrollments (snd (instructor_block_student cu enrollment_id d))
          = map (\<lambda>r. if e_id r = enrollment_id then r\<lparr>status := Blocked\<rparr> else r)
                (enrollments d)
        \<and> (\<exists>e \<in> set (enrollments d). e_id e = enrollment_id \<and> status e = Approved))
   \<and> (fst (instructor_unblock_student cu enrollment_id d) = Inr () \<longrightarrow>
        enrollments (snd (instructor_unblock_student cu enrollment_id d))
          = map (\<lambda>r. if e_id r = enrollment_id then r\<lparr>status := Approved\<rparr> else r)
                (enrollments d)
        \<and> (\<exists>e \<in> set (enrollments d). e_id e = enrollment_id \<and> status e = Blocked))
   \<and> map (\<lambda>r. r\<lparr>status := Pending\<rparr>)
         (enrollments (snd (instructor_block_student cu enrollment_id d)))
       = map (\<lambda>r. r\<lparr>status := Pending\<rparr>) (enrollments d)
   \<and> map (\<lambda>r. r\<lparr>status := Pending\<rparr>)
         (enrollments (snd (instructor_unblock_student cu enrollment_id d)))
       = map (\<lambda>r. r\<lparr>status := Pending\<rparr>) (enrollments d)
   \<and> map approved_at (enrollments (snd (instructor_block_student cu enrollment_id d)))
       = map approved_at (enrollments d)
   \<and> map approved_at (enrollments (snd (instructor_unblock_student cu enrollment_id d)))
       = map approved_at (enrollments d)
   \<and> map approved_at (enrollments (snd (instructor_reject_enrollment cu enrollment_id d)))
       = map approved_at (enrollments d)
   \<and> set (enrollments (snd (instructor_remove_student cu enrollment_id d)))
       \<subseteq> set (enrollments d)
   \<and> map approved_at (enrollments (snd (update_student_progress d sid cid)))
       = map approved_at (enrollments d)
   \<and> map approved_at
        (enrollments (snd (instructor_set_student_progress py_float delivered cu cid sid progress d)))
       = map approved_at (enrollments d)
   \<and> map approved_at
        (enrollments (snd (instructor_set_progress_bulk py_float delivered cu cid progress d)))
       = map approved_at (enrollments d)"
proof -
  have enroll: "fst (student_enroll chk now cu code enrollment_key d) = Inr () \<longrightarrow>
      (\<exists>e. enrollments (snd (student_enroll chk now cu code enrollment_key d))
              = enrollments d @ [e]
            \<and> status e = Pending \<and> approved_at e = None)"
  proof
    assume "fst (student_enroll chk now cu code enrollment_key d) = Inr ()"
    from enroll_success [OF this]
    show "\<exists>e. enrollments (snd (student_enroll chk now cu code enrollment_key d))
              = enrollments d @ [e]
            \<and> status e = Pending \<and> approved_at e = None"
      by (auto simp: new_enrollment_def)
  qed
  have approve: "fst (instructor_approve_enrollment now cu enrollment_id d) = Inr () \<longrightarrow>
        enrollments (snd (instructor_approve_enrollment now cu enrollment_id d))
          = map (\<lambda>r. if e_id r = enrollment_id
                      then r\<lparr>status := Approved, approved_at := Some now\<rparr> else r)
                (enrollments d)
        \<and> (\<exists>e \<in> set (enrollments d). e_id e = enrollment_id \<and> status e = Pending)"
    using approve_success [of now cu enrollment_id d] by blast
  have block: "fst (instructor_block_student cu enrollment_id d) = Inr () \<longrightarrow>
        enrollments (snd (instructor_block_student cu enrollment_id d))
          = map (\<lambda>r. if e_id r = enrollment_id then r\<lparr>status := Blocked\<rparr> else r)
                (enrollments d)
        \<and> (\<exists>e \<in> set (enrollments d). e_id e = enrollment_id \<and> status e = Approved)"
    using block_success [of cu enrollment_id d] by blast
  have unblock: "fst (instructor_unblock_student cu enrollment_id d) = Inr () \<longrightarrow>
        enrollments (snd (instructor_unblock_student cu enrollment_id d))
          = map (\<lambda>r. if e_id r = enrollment_id then r\<lparr>status := Approved\<rparr> else r)
                (enrollments d)
        \<and> (\<exists>e \<in> set (enrollments d). e_id e = enrollment_id \<and> status e = Blocked)"
    using unblock_success [of cu enrollment_id d] by blast
  have block_frame: "map (\<lambda>r. r\<lparr>status := Pending\<rparr>)
         (enrollments (snd (instructor_block_student cu enrollment_id d)))
       = map (\<lambda>r. r\<lparr>status := Pending\<rparr>) (enrollments d)"
    by (cases "fst (instructor_block_student cu enrollment_id d) = Inr ()")
       (simp_all add: block_success(1) block_failure map_frame)
  have unblock_frame: "map (\<lambda>r. r\<lparr>status := Pending\<rparr>)
         (enrollments (snd (instructor_unblock_student cu enrollment_id d)))
       = map (\<lambda>r. r\<lparr>status := Pending\<rparr>) (enrollments d)"
    by (cases "fst (instructor_unblock_student cu enrollment_id d) = Inr ()")
       (simp_all add: unblock_success(1) unblock_failure map_frame)
  have block_at: "map approved_at (enrollments (snd (instructor_block_student cu enrollment_id d)))
       = map approved_at (enrollments d)"
    by (cases "fst (instructor_block_student cu enrollment_id d) = Inr ()")
       (simp_all add: block_success(1) block_failure map_frame)
  have unblock_at: "map approved_at (enrollments (snd (instructor_unblock_student cu enrollment_id d)))
       = map approved_at (enrollments d)"
    by (cases "fst (instructor_unblock_student cu enrollment_id d) = Inr ()")
       (simp_all add: unblock_success(1) unblock_failure map_frame)
  have remove: "set (enrollments (snd (instructor_remove_student cu enrollment_id d)))
       \<subseteq> set (enrollments d)"
    by (cases "fst (instructor_remove_student cu enrollment_id d) = Inr ()")
       (simp_all add: remove_success(1) remove_failure)
  from enroll approve block unblock block_frame unblock_frame block_at unblock_at remove
  show ?thesis
    by (simp only: approved_at_reject approved_at_update_student_progress
          approved_at_set_student_progress approved_at_set_progress_bulk simp_thms)
qed

text \<open>
  The run of one enrollment through request, approval at time 7, block and unblock: the
  row starts without \<^verbatim>\<open>approved_at\<close>, gets 7 on approval and keeps it.
\<close>

theorem approved_at_lifecycle_witness:
  "(\<exists>e. enrollments
           (snd (student_enroll sample_check_password_hash 5 student10 ''CS101'' ''sesame''
                   sample_db)) = enrollments sample_db @ [e]
        \<and> status e = Pending \<and> approved_at e = None)
   \<and> enrollments sample_db_approved
       = [\<lparr>e_id = 1, student_id = 10, course_id = 1, status = Approved, enrolled_at = 5,
           approved_at = Some 7, progress_percentage = Some 0, manual_progress_override = None\<rparr>]
   \<and> enrollments sample_db_blocked
       = [\<lparr>e_id = 1, student_id = 10, course_id = 1, status = Blocked, enrolled_at = 5,
           approved_at = Some 7, progress_percentage = Some 0, manual_progress_override = None\<rparr>]
   \<and> enrollments (snd (instructor_unblock_student instructor1 1 sample_db_blocked))
       = [\<lparr>e_id = 1, student_id = 10, course_id = 1, status = Approved, enrolled_at = 5,
           approved_at = Some 7, progress_percentage = Some 0, manual_progress_override = None\<rparr>]"
proof -
  let ?requested =
    "snd (student_enroll sample_check_password_hash 5 student10 ''CS101'' ''sesame'' sample_db)"
  have ok1: "fst (student_enroll sample_check_password_hash 5 student10 ''CS101'' ''sesame''
                    sample_db) = Inr ()"
    by code_simp
  have ok2: "fst (instructor_approve_enrollment 7 instructor1 1 ?requested) = Inr ()"
    by code_simp
  have ok3: "fst (instructor_block_student instructor1 1 sample_db_approved) = Inr ()"
    by code_simp
  have ok4: "fst (instructor_unblock_student instructor1 1 sample_db_blocked) = Inr ()"
    by code_simp
  have rows: "enrollments ?requested
       = [\<lparr>e_id = 1, student_id = 10, course_id = 1, status = Pending, enrolled_at = 5,
           approved_at = None, progress_percentage = Some 0, manual_progress_override = None\<rparr>]"
    by code_simp
  from ok1 approved_at_lifecycle [of sample_check_password_hash 5 student10 "''CS101''"
         "''sesame''" sample_db]
  have 1: "\<exists>e. enrollments ?requested = enrollments sample_db @ [e]
        \<and> status e = Pending \<and> approved_at e = None"
    by blast
  from ok2 approved_at_lifecycle [of _ 7 instructor1 _ _ ?requested 1]
  have "enrollments (snd (instructor_approve_enrollment 7 instructor1 1 ?requested))
          = map (\<lambda>r. if e_id r = 1
                      then r\<lparr>status := Approved, approved_at := Some 7\<rparr> else r)
                (enrollments ?requested)"
    by blast
  then have 2: "enrollments sample_db_approved
       = [\<lparr>e_id = 1, student_id = 10, course_id = 1, status = Approved, enrolled_at = 5,
           approved_at = Some 7, progress_percentage = Some 0, manual_progress_override = None\<rparr>]"
    by (simp add: sample_db_approved_def rows)
  from ok3 approved_at_lifecycle [of _ _ instructor1 _ _ sample_db_approved 1]
  have "enrollments (snd (instructor_block_student instructor1 1 sample_db_approved))
          = map (\<lambda>r. if e_id r = 1 then r\<lparr>status := Blocked\<rparr> else r)
                (enrollments sample_db_approved)"
    by blast
  then have 3: "enrollments sample_db_blocked
       = [\<lparr>e_id = 1, student_id = 10, course_id = 1, status = Blocked, enrolled_at = 5,
           approved_at = Some 7, progress_percentage = Some 0, manual_progress_override = None\<rparr>]"
    by (simp add: sample_db_blocked_def 2)
  from ok4 approved_at_lifecycle [of _ _ instructor1 _ _ sample_db_blocked 1]
  have "enrollments (snd (instructor_unblock_student instructor1 1 sample_db_blocked))
          = map (\<lambda>r. if e_id r = 1 then r\<lparr>status := Approved\<rparr> else r)
                (enrollments sample_db_blocked)"
    by blast
  then have 4: "enrollments (snd (instructor_unblock_student instructor1 1 sample_db_blocked))
       = [\<lparr>e_id = 1, student_id = 10, course_id = 1, status = Approved, enrolled_at = 5,
           approved_at = Some 7, progress_percentage = Some 0, manual_progress_override = None\<rparr>]"
    by (simp add: 3)
  from 1 2 3 4 show ?thesis by blast
qed

subsection \<open>Capacity\<close>

lemma filter_map_count_le:
  "\<forall>x \<in> set xs. Q x \<longrightarrow> P (g x) \<Longrightarrow> length (filter Q xs) \<le> length (filter P (map g xs))"
  by (induction xs) auto

lemma filter_map_count_less:
  "\<forall>x \<in> set xs. Q x \<longrightarrow> P (g x) \<Longrightarrow> \<exists>x \<in> set xs. \<not> Q x \<and> P (g x) \<Longrightarrow>
     length (filter Q xs) < length (filter P (map g xs))"
proof (induction xs)
  case Nil
  then show ?case by simp
next
  case (Cons a xs)
  show ?case
  proof (cases "\<not> Q a \<and> P (g a)")
    case True
    from Cons.prems(1) have "length (filter Q xs) \<le> length (filter P (map g xs))"
      by (intro filter_map_count_le) simp
    with True show ?thesis by simp
  next
    case False
    with Cons.prems have "\<forall>x \<in> set xs. Q x \<longrightarrow> P (g x)" and "\<exists>x \<in> set xs. \<not> Q x \<and> P (g x)"
      by auto
    then have "length (filter Q xs) < length (filter P (map g xs))" by (rule Cons.IH)
    with False Cons.prems(1) show ?thesis by auto
  qed
qed

lemma select_enrollment_exists:
  assumes "e \<in> set (enrollments d)" and "e_id e = enrollment_id" and "status e = st"
    and "owns_course d uid (course_id e)" and "\<exists>u \<in> set (users d). u_id u = student_id e"
  shows "\<exists>e'. select_enrollment d enrollment_id uid st = Some e'"
proof (cases "select_enrollment d enrollment_id uid st")
  case None
  with assms show ?thesis by (auto simp: select_enrollment_def find_None_iff)
next
  case (Some e')
  then show ?thesis by simp
qed

text \<open>
  Claim C3, as amended. \<^verbatim>\<open>instructor_approve_enrollment\<close> has no capacity check: the
  approval of a pending enrollment by the instructor who owns the course succeeds whatever
  the number of approved enrollments, and raises that number for the course. Capacity is
  looked at only when a student requests enrollment, so the approved count of a course can
  pass \<^verbatim>\<open>max_students\<close>.
\<close>

theorem approve_ignores_capacity:
  assumes "instructor_required cu = None"
    and "e \<in> set (enrollments d)" and "e_id e = enrollment_id" and "status e = Pending"
    and "owns_course d (cu_id cu) (course_id e)"
    and "\<exists>u \<in> set (users d). u_id u = student_id e"
  shows "fst (instructor_approve_enrollment now cu enrollment_id d) = Inr ()
       \<and> enrollments (snd (instructor_approve_enrollment now cu enrollment_id d))
           = map (\<lambda>r. if e_id r = enrollment_id
                       then r\<lparr>status := Approved, approved_at := Some now\<rparr> else r)
                 (enrollments d)
       \<and> count_approved d (course_id e)
           < count_approved (snd (instructor_approve_enrollment now cu enrollment_id d))
               (course_id e)"
proof -
  from select_enrollment_exists [OF assms(2-6)]
  obtain e' where "select_enrollment d enrollment_id (cu_id cu) Pending = Some e'" by blast
  with assms(1) have ok: "fst (instructor_approve_enrollment now cu enrollment_id d) = Inr ()"
    by (simp add: instructor_approve_enrollment_def)
  note rows = approve_success(1) [OF ok]
  have "length (filter (\<lambda>r. course_id r = course_id e \<and> status r = Approved) (enrollments d))
      < length (filter (\<lambda>r. course_id r = course_id e \<and> status r = Approved)
          (map (\<lambda>r. if e_id r = enrollment_id
                     then r\<lparr>status := Approved, approved_at := Some now\<rparr> else r)
               (enrollments d)))"
  proof (rule filter_map_count_less)
    show "\<forall>x \<in> set (enrollments d). course_id x = course_id e \<and> status x = Approved \<longrightarrow>
            course_id (if e_id x = enrollment_id
                       then x\<lparr>status := Approved, approved_at := Some now\<rparr> else x) = course_id e
            \<and> status (if e_id x = enrollment_id
                       then x\<lparr>status := Approved, approved_at := Some now\<rparr> else x) = Approved"
      by simp
    from assms(2-4)
    show "\<exists>x \<in> set (enrollments d). \<not> (course_id x = course_id e \<and> status x = Approved) \<and>
            (course_id (if e_id x = enrollment_id
                       then x\<lparr>status := Approved, approved_at := Some now\<rparr> else x) = course_id e
            \<and> status (if e_id x = enrollment_id
                       then x\<lparr>status := Approved, approved_at := Some now\<rparr> else x) = Approved)"
      by (intro bexI [of _ e]) simp_all
  qed
  then have "count_approved d (course_id e)
           < count_approved (snd (instructor_approve_enrollment now cu enrollment_id d))
               (course_id e)"
    by (simp add: count_approved_def rows)
  with ok rows show ?thesis by simp
qed

lemma sample_db_one_of_two_approved_rows:
  "enrollments sample_db_one_of_two_approved
     = [\<lparr>e_id = 1, student_id = 10, course_id = 1, status = Approved, enrolled_at = 5,
         approved_at = Some 7, progress_percentage = Some 0, manual_progress_override = None\<rparr>,
        \<lparr>e_id = 2, student_id = 11, course_id = 1, status = Pending, enrolled_at = 6,
         approved_at = None, progress_percentage = Some 0, manual_progress_override = None\<rparr>]"
  by code_simp


lemma sample_db_one_of_two_approved_facts:
  "instructor_required instructor1 = None"
  "owns_course sample_db_one_of_two_approved (cu_id instructor1) 1"
  "\<exists>u \<in> set (users sample_db_one_of_two_approved). u_id u = 11"
  "fst (instructor_approve_enrollment 8 instructor1 2 sample_db_one_of_two_approved) = Inr ()"
  "max_students cs101 = 1"
  by code_simp+

text \<open>
  A course of capacity 1 with one approved and one pending enrollment, both requested while
  the course had room: the second approval goes through.
\<close>

theorem approve_ignores_capacity_witness:
  "int (count_approved sample_db_one_of_two_approved 1) = max_students cs101
   \<and> fst (instructor_approve_enrollment 8 instructor1 2 sample_db_one_of_two_approved) = Inr ()
   \<and> count_approved sample_db_one_of_two_approved 1
       < count_approved
           (snd (instructor_approve_enrollment 8 instructor1 2 sample_db_one_of_two_approved)) 1"
proof -
  let ?e = "\<lparr>e_id = 2, student_id = 11, course_id = 1, status = Pending, enrolled_at = 6,
         approved_at = None, progress_percentage = Some 0, manual_progress_override = None\<rparr>"
  have mem: "?e \<in> set (enrollments sample_db_one_of_two_approved)"
    by (simp add: sample_db_one_of_two_approved_rows)
  have id: "e_id ?e = 2" and st: "status ?e = Pending" by simp_all
  have own: "owns_course sample_db_one_of_two_approved (cu_id instructor1) (course_id ?e)"
    using sample_db_one_of_two_approved_facts(2) by simp
  have usr: "\<exists>u \<in> set (users sample_db_one_of_two_approved). u_id u = student_id ?e"
    using sample_db_one_of_two_approved_facts(3) by simp
  have cnt: "int (count_approved sample_db_one_of_two_approved 1) = max_students cs101"
    by (simp add: count_approved_def sample_db_one_of_two_approved_rows
          sample_db_one_of_two_approved_facts(5))
  from approve_ignores_capacity [OF sample_db_one_of_two_approved_facts(1) mem id st own usr,
         of 8] cnt
  show ?thesis by simp
qed

text \<open>
  The claim as first stated fails on that run: with the approved count equal to
  \<^verbatim>\<open>max_students\<close> the approval does not answer \<open>CourseFull\<close> but succeeds, and the
  course of capacity 1 then has two approved enrollments.
\<close>

theorem approve_at_capacity_counterexample:
  "count_approved sample_db_one_of_two_approved 1 = 1
   \<and> max_students cs101 = 1
   \<and> fst (instructor_approve_enrollment 8 instructor1 2 sample_db_one_of_two_approved) = Inr ()
   \<and> count_approved
        (snd (instructor_approve_enrollment 8 instructor1 2 sample_db_one_of_two_approved)) 1 = 2"
proof -
  note ok = sample_db_one_of_two_approved_facts(4)
  have "count_approved sample_db_one_of_two_approved 1 = 1"
    by (simp add: count_approved_def sample_db_one_of_two_approved_rows)
  moreover have "count_approved
        (snd (instructor_approve_enrollment 8 instructor1 2 sample_db_one_of_two_approved)) 1 = 2"
    by (simp add: count_approved_def approve_success(1) [OF ok]
          sample_db_one_of_two_approved_rows)
  ultimately show ?thesis
    using ok sample_db_one_of_two_approved_facts(5) by simp
qed

subsection \<open>A request against a full course\<close>

text \<open>
  Claim C7, as amended. In a course of capacity 1 with one student approved, the enrollment
  request of a second student with the correct key fails with \<open>CourseFull\<close> (the check at
  request time counts the approved enrollments, and 1 is not below 1); the database is
  unchanged, so no pending row of the second student exists for the instructor to approve.
\<close>

theorem request_for_full_course:
  assumes "is_authenticated cu" and "is_student cu" and "code \<noteq> []" and "enrollment_key \<noteq> []"
    and "select_course d code = Some c"
    and "\<not> key_rejected chk c enrollment_key"
    and "\<forall>e \<in> set (enrollments d). \<not> (student_id e = cu_id cu \<and> course_id e = c_id c)"
    and "max_students c = 1" and "count_approved d (c_id c) = 1"
  shows "student_enroll chk now cu code enrollment_key d = (Inl CourseFull, d)
       \<and> (\<forall>e \<in> set (enrollments (snd (student_enroll chk now cu code enrollment_key d))).
             \<not> (student_id e = cu_id cu \<and> course_id e = c_id c))"
  using assms by (simp add: student_enroll_def)

lemma sample_db_approved_facts:
  "is_authenticated student11" "is_student student11"
  "select_course sample_db_approved ''CS101'' = Some cs101"
  "\<not> key_rejected sample_check_password_hash cs101 ''sesame''"
  "\<forall>e \<in> set (enrollments sample_db_approved).
      \<not> (student_id e = cu_id student11 \<and> course_id e = c_id cs101)"
  "max_students cs101 = 1" "count_approved sample_db_approved (c_id cs101) = 1"
  by code_simp+

theorem request_for_full_course_witness:
  "student_enroll sample_check_password_hash 8 student11 ''CS101'' ''sesame'' sample_db_approved
     = (Inl CourseFull, sample_db_approved)
   \<and> map student_id
         (enrollments (snd (student_enroll sample_check_password_hash 8 student11 ''CS101''
                              ''sesame'' sample_db_approved))) = [10]"
proof -
  have code: "''CS101'' \<noteq> []" and key: "''sesame'' \<noteq> []" by simp_all
  have rows: "map student_id (enrollments sample_db_approved) = [10]" by code_simp
  from request_for_full_course [OF sample_db_approved_facts(1,2) code key
          sample_db_approved_facts(3-7), of 8] rows
  show ?thesis by simp
qed

text \<open>
  The scenario as first stated fails at its first step: the request of student 11 does not
  succeed and creates no row.
\<close>

theorem request_for_full_course_counterexample:
  "max_students cs101 = 1
   \<and> map status (enrollments sample_db_approved) = [Approved]
   \<and> fst (student_enroll sample_check_password_hash 8 student11 ''CS101'' ''sesame''
            sample_db_approved) = Inl CourseFull
   \<and> enrollments (snd (student_enroll sample_check_password_hash 8 student11 ''CS101''
                         ''sesame'' sample_db_approved))
       = enrollments sample_db_approved"
proof -
  have "fst (student_enroll sample_check_password_hash 8 student11 ''CS101'' ''sesame''
            sample_db_approved) = Inl CourseFull"
    by code_simp
  moreover from this
  have "snd (student_enroll sample_check_password_hash 8 student11 ''CS101'' ''sesame''
            sample_db_approved) = sample_db_approved"
    by (intro enroll_failure) simp
  moreover have "map status (enrollments sample_db_approved) = [Approved]"
    by code_simp
  ultimately show ?thesis
    using sample_db_approved_facts(6) by simp
qed

subsection \<open>Ownership\<close>

lemma select_enrollment_not_owner:
  "\<forall>e \<in> set (enrollments d). e_id e = enrollment_id \<longrightarrow> \<not> owns_course d uid (course_id e) \<Longrightarrow>
     select_enrollment d enrollment_id uid st = None"
  by (auto simp: select_enrollment_def find_None_iff)

text \<open>
  Claim C6, as amended. An instructor (a user the decorator lets through) who does not own
  the course an enrollment belongs to cannot approve, reject, block, unblock or remove that
  enrollment, and cannot set progress, for one student or in bulk, in a course of another
  instructor: each handler fails and hands back the database it was given, so no row has
  changed and the operation has not silently succeeded. The five transitions fail with
  their one answer \<open>EnrollmentNotFound\<close>, which does not tell a foreign enrollment from
  an absent one; the two progress setters fail with \<open>AccessDenied\<close> (HTTP 403).
\<close>

theorem not_owner_rejected:
  assumes "instructor_required cu = None"
  shows "((\<forall>e \<in> set (enrollments d).
             e_id e = enrollment_id \<longrightarrow> \<not> owns_course d (cu_id cu) (course_id e)) \<longrightarrow>
            instructor_approve_enrollment now cu enrollment_id d = (Inl EnrollmentNotFound, d)
          \<and> instructor_reject_enrollment cu enrollment_id d = (Inl EnrollmentNotFound, d)
          \<and> instructor_block_student cu enrollment_id d = (Inl EnrollmentNotFound, d)
          \<and> instructor_unblock_student cu enrollment_id d = (Inl EnrollmentNotFound, d)
          \<and> instructor_remove_student cu enrollment_id d = (Inl EnrollmentNotFound, d))
       \<and> (\<not> owns_course d (cu_id cu) cid \<longrightarrow>
            instructor_set_student_progress py_float delivered cu cid sid progress d
              = (Inl AccessDenied, d)
          \<and> instructor_set_progress_bulk py_float delivered cu cid progress d
              = (Inl AccessDenied, d))"
proof (intro conjI impI)
  assume "\<forall>e \<in> set (enrollments d).
             e_id e = enrollment_id \<longrightarrow> \<not> owns_course d (cu_id cu) (course_id e)"
  then have none: "select_enrollment d enrollment_id (cu_id cu) st = None" for st
    by (rule select_enrollment_not_owner)
  from assms none
  show "instructor_approve_enrollment now cu enrollment_id d = (Inl EnrollmentNotFound, d)"
    by (simp add: instructor_approve_enrollment_def)
  from assms none
  show "instructor_reject_enrollment cu enrollment_id d = (Inl EnrollmentNotFound, d)"
    by (simp add: instructor_reject_enrollment_def)
  from assms none
  show "instructor_block_student cu enrollment_id d = (Inl EnrollmentNotFound, d)"
    by (simp add: instructor_block_student_def)
  from assms none
  show "instructor_unblock_student cu enrollment_id d = (Inl EnrollmentNotFound, d)"
    by (simp add: instructor_unblock_student_def)
  from assms none
  show "instructor_remove_student cu enrollment_id d = (Inl EnrollmentNotFound, d)"
    by (simp add: instructor_remove_student_def)
next
  assume "\<not> owns_course d (cu_id cu) cid"
  with assms show "instructor_set_student_progress py_float delivered cu cid sid progress d
              = (Inl AccessDenied, d)"
    by (simp add: instructor_set_student_progress_def)
next
  assume "\<not> owns_course d (cu_id cu) cid"
  with assms show "instructor_set_progress_bulk py_float delivered cu cid progress d
              = (Inl AccessDenied, d)"
    by (simp add: instructor_set_progress_bulk_def)
qed

lemma instructor2_facts:
  "instructor_required instructor2 = None"
  "\<forall>e \<in> set (enrollments sample_db_approved).
      e_id e = 1 \<longrightarrow> \<not> owns_course sample_db_approved (cu_id instructor2) (course_id e)"
  "\<not> owns_course sample_db_approved (cu_id instructor2) 1"
  by code_simp+

theorem not_owner_rejected_witness:
  "instructor_approve_enrollment 9 instructor2 1 sample_db_approved
     = (Inl EnrollmentNotFound, sample_db_approved)
   \<and> instructor_reject_enrollment instructor2 1 sample_db_approved
     = (Inl EnrollmentNotFound, sample_db_approved)
   \<and> instructor_block_student instructor2 1 sample_db_approved
     = (Inl EnrollmentNotFound, sample_db_approved)
   \<and> instructor_unblock_student instructor2 1 sample_db_approved
     = (Inl EnrollmentNotFound, sample_db_approved)
   \<and> instructor_remove_student instructor2 1 sample_db_approved
     = (Inl EnrollmentNotFound, sample_db_approved)
   \<and> instructor_set_student_progress sample_py_float (\<lambda>u. True) instructor2 1 10 (Some ''90'')
       sample_db_approved = (Inl AccessDenied, sample_db_approved)
   \<and> instructor_set_progress_bulk sample_py_float (\<lambda>u. True) instructor2 1 (Some ''90'')
       sample_db_approved = (Inl AccessDenied, sample_db_approved)"
  using instructor2_facts(2,3)
    not_owner_rejected [OF instructor2_facts(1), of sample_db_approved 1 9 1 sample_py_float
      "\<lambda>u. True" 10 "Some ''90''"]
  by blast

text \<open>
  The claim as first stated fails in its error: instructor 2, who does not own
  \<^verbatim>\<open>CS101\<close>, is not told \<open>AccessDenied\<close> when approving, rejecting, blocking,
  unblocking or removing an enrollment of that course, but is given the answer the
  owner gets for an id that does not exist.
\<close>

theorem not_owner_answer_counterexample:
  "fst (instructor_approve_enrollment 9 instructor2 2 sample_db_one_of_two_approved)
     = Inl EnrollmentNotFound
   \<and> fst (instructor_approve_enrollment 9 instructor1 99 sample_db_one_of_two_approved)
     = Inl EnrollmentNotFound
   \<and> fst (instructor_reject_enrollment instructor2 2 sample_db_one_of_two_approved)
     = Inl EnrollmentNotFound
   \<and> fst (instructor_block_student instructor2 1 sample_db_one_of_two_approved)
     = Inl EnrollmentNotFound
   \<and> fst (instructor_remove_student instructor2 1 sample_db_one_of_two_approved)
     = Inl EnrollmentNotFound
   \<and> fst (instructor_unblock_student instructor2 1 sample_db_blocked)
     = Inl EnrollmentNotFound
   \<and> fst (instructor_approve_enrollment 9 instructor2 2 sample_db_one_of_two_approved)
     \<noteq> Inl AccessDenied"
proof -
  have a: "fst (instructor_approve_enrollment 9 instructor2 2 sample_db_one_of_two_approved)
     = Inl EnrollmentNotFound" by code_simp
  have b: "fst (instructor_approve_enrollment 9 instructor1 99 sample_db_one_of_two_approved)
     = Inl EnrollmentNotFound" by code_simp
  have c: "fst (instructor_reject_enrollment instructor2 2 sample_db_one_of_two_approved)
     = Inl EnrollmentNotFound" by code_simp
  have e: "fst (instructor_block_student instructor2 1 sample_db_one_of_two_approved)
     = Inl EnrollmentNotFound" by code_simp
  have f: "fst (instructor_remove_student instructor2 1 sample_db_one_of_two_approved)
     = Inl EnrollmentNotFound" by code_simp
  have g: "fst (instructor_unblock_student instructor2 1 sample_db_blocked)
     = Inl EnrollmentNotFound" by code_simp
  from a have h: "fst (instructor_approve_enrollment 9 instructor2 2
                         sample_db_one_of_two_approved) \<noteq> Inl AccessDenied"
    by simp
  from a b c e f g h show ?thesis by (intro conjI)
qed

subsection \<open>Setting a manual override\<close>

lemma enrollments_bulk_fold:
  "enrollments (fold (bulk_step delivered cid p) sids d)
     = map (\<lambda>r. if course_id r = cid \<and> student_id r \<in> set sids
                 then r\<lparr>manual_progress_override := bound_real p,
                        progress_percentage := bound_real p\<rparr>
                 else r)
           (enrollments d)"
proof (induction sids arbitrary: d)
  case Nil
  show ?case by (simp add: map_idI)
next
  case (Cons s sids)
  have step: "enrollments (bulk_step delivered cid p s d)
     = map (\<lambda>r. if course_id r = cid \<and> student_id r = s
                 then r\<lparr>manual_progress_override := bound_real p,
                        progress_percentage := bound_real p\<rparr>
                 else r)
           (enrollments d)"
    by (simp add: bulk_step_def enrollments_send_notification set_manual_progress_def)
  show ?case
    by (simp add: Cons.IH step) auto
qed

lemma set_student_progress_enrollments:
  assumes "instructor_required cu = None" and "owns_course d (cu_id cu) cid"
    and "input \<noteq> []" and "py_float input = Some p" and "\<not> out_of_range p"
  shows "enrollments
           (snd (instructor_set_student_progress py_float delivered cu cid sid (Some input) d))
         = map (\<lambda>r. if course_id r = cid \<and> student_id r = sid
                     then r\<lparr>manual_progress_override := bound_real p,
                            progress_percentage := bound_real p\<rparr>
                     else r)
               (enrollments d)"
  using assms
  by (simp add: instructor_set_student_progress_def Let_def enrollments_send_notification
        set_manual_progress_def split: option.splits)

lemma set_progress_bulk_enrollments:
  assumes "instructor_required cu = None" and "owns_course d (cu_id cu) cid"
    and "input \<noteq> []" and "py_float input = Some p" and "\<not> out_of_range p"
  shows "enrollments
           (snd (instructor_set_progress_bulk py_float delivered cu cid (Some input) d))
         = map (\<lambda>r. if course_id r = cid \<and> student_id r \<in> set (bulk_students d cid)
                     then r\<lparr>manual_progress_override := bound_real p,
                            progress_percentage := bound_real p\<rparr>
                     else r)
               (enrollments d)"
  using assms
  by (simp add: instructor_set_progress_bulk_def Let_def enrollments_bulk_fold)

lemma sample_db_approved_rows:
  "enrollments sample_db_approved
     = [\<lparr>e_id = 1, student_id = 10, course_id = 1, status = Approved, enrolled_at = 5,
         approved_at = Some 7, progress_percentage = Some 0,
         manual_progress_override = None\<rparr>]"
  by code_simp

lemma instructor1_facts:
  "instructor_required instructor1 = None"
  "owns_course sample_db_approved (cu_id instructor1) 1"
  "sample_py_float ''90'' = Some (Num 90)"
  "\<not> out_of_range (Num 90)"
  "bulk_students sample_db_approved 1 = [10]"
  "bound_real (Num 90) = Some 90"
  by code_simp+

text \<open>
  Claim C1. The stored \<^verbatim>\<open>progress_percentage\<close> is meant to be the automatic value at
  all times, a manual override changing \<^verbatim>\<open>manual_progress_override\<close> and the display
  value only. The two setters do not keep this: the row of student 10 holds
  \<^verbatim>\<open>progress_percentage\<close> 0 and no override, and after the instructor has set 90, for
  the student alone or in bulk, the stored \<^verbatim>\<open>progress_percentage\<close> is 90.
\<close>

theorem set_progress_overwrites_progress_percentage:
  "enrollments sample_db_approved
     = [\<lparr>e_id = 1, student_id = 10, course_id = 1, status = Approved, enrolled_at = 5,
         approved_at = Some 7, progress_percentage = Some 0,
         manual_progress_override = None\<rparr>]
   \<and> enrollments
       (snd (instructor_set_student_progress sample_py_float (\<lambda>u. True) instructor1 1 10
               (Some ''90'') sample_db_approved))
     = [\<lparr>e_id = 1, student_id = 10, course_id = 1, status = Approved, enrolled_at = 5,
         approved_at = Some 7, progress_percentage = Some 90,
         manual_progress_override = Some 90\<rparr>]
   \<and> enrollments
       (snd (instructor_set_progress_bulk sample_py_float (\<lambda>u. True) instructor1 1
               (Some ''90'') sample_db_approved))
     = [\<lparr>e_id = 1, student_id = 10, course_id = 1, status = Approved, enrolled_at = 5,
         approved_at = Some 7, progress_percentage = Some 90,
         manual_progress_override = Some 90\<rparr>]"
proof -
  have nonempty: "''90'' \<noteq> []" by simp
  note single = set_student_progress_enrollments [where cu = instructor1
         and d = sample_db_approved and cid = 1 and input = "''90''"
         and py_float = sample_py_float and p = "Num 90" and delivered = "\<lambda>u. True"
         and sid = 10, OF instructor1_facts(1,2) nonempty instructor1_facts(3,4)]
  note bulk = set_progress_bulk_enrollments [where cu = instructor1
         and d = sample_db_approved and cid = 1 and input = "''90''"
         and py_float = sample_py_float and p = "Num 90" and delivered = "\<lambda>u. True",
         OF instructor1_facts(1,2) nonempty instructor1_facts(3,4)]
  have a: "enrollments
       (snd (instructor_set_student_progress sample_py_float (\<lambda>u. True) instructor1 1 10
               (Some ''90'') sample_db_approved))
     = [\<lparr>e_id = 1, student_id = 10, course_id = 1, status = Approved, enrolled_at = 5,
         approved_at = Some 7, progress_percentage = Some 90,
         manual_progress_override = Some 90\<rparr>]"
    unfolding single sample_db_approved_rows instructor1_facts(6) by simp
  have b: "enrollments
       (snd (instructor_set_progress_bulk sample_py_float (\<lambda>u. True) instructor1 1
               (Some ''90'') sample_db_approved))
     = [\<lparr>e_id = 1, student_id = 10, course_id = 1, status = Approved, enrolled_at = 5,
         approved_at = Some 7, progress_percentage = Some 90,
         manual_progress_override = Some 90\<rparr>]"
    unfolding bulk sample_db_approved_rows instructor1_facts(5,6) by simp
  from sample_db_approved_rows a b show ?thesis by (intro conjI)
qed

text \<open>
  The text \<^verbatim>\<open>nan\<close> passes the range test of the setters, is stored as \<^verbatim>\<open>NULL\<close> in
  both columns and is answered with success.
\<close>

lemma set_progress_nan:
  "fst (instructor_set_student_progress sample_py_float (\<lambda>u. True) instructor1 1 10
          (Some ''nan'') sample_db_approved)
     = Inr \<lparr>reply_progress = NaN, reply_is_manual = True\<rparr>
   \<and> enrollments
       (snd (instructor_set_student_progress sample_py_float (\<lambda>u. True) instructor1 1 10
               (Some ''nan'') sample_db_approved))
     = [\<lparr>e_id = 1, student_id = 10, course_id = 1, status = Approved, enrolled_at = 5,
         approved_at = Some 7, progress_percentage = None,
         manual_progress_override = None\<rparr>]"
proof -
  have nonempty: "''nan'' \<noteq> []" by simp
  have nan: "sample_py_float ''nan'' = Some NaN" "\<not> out_of_range NaN" "bound_real NaN = None"
    by code_simp+
  note single = set_student_progress_enrollments [where cu = instructor1
         and d = sample_db_approved and cid = 1 and input = "''nan''"
         and py_float = sample_py_float and p = NaN and delivered = "\<lambda>u. True"
         and sid = 10, OF instructor1_facts(1,2) nonempty nan(1,2)]
  have a: "enrollments
       (snd (instructor_set_student_progress sample_py_float (\<lambda>u. True) instructor1 1 10
               (Some ''nan'') sample_db_approved))
     = [\<lparr>e_id = 1, student_id = 10, course_id = 1, status = Approved, enrolled_at = 5,
         approved_at = Some 7, progress_percentage = None,
         manual_progress_override = None\<rparr>]"
    unfolding single sample_db_approved_rows nan(3) by simp
  have b: "fst (instructor_set_student_progress sample_py_float (\<lambda>u. True) instructor1 1 10
          (Some ''nan'') sample_db_approved)
     = Inr \<lparr>reply_progress = NaN, reply_is_manual = True\<rparr>"
    by code_simp
  from b a show ?thesis by (intro conjI)
qed

subsection \<open>Setting progress for a student without an enrollment\<close>

lemma set_manual_progress_no_row:
  "\<forall>e \<in> set (enrollments d). \<not> (course_id e = cid \<and> student_id e = sid) \<Longrightarrow>
     set_manual_progress cid sid p d = d"
proof -
  assume "\<forall>e \<in> set (enrollments d). \<not> (course_id e = cid \<and> student_id e = sid)"
  then have "map (\<lambda>r. if course_id r = cid \<and> student_id r = sid
                       then r\<lparr>manual_progress_override := p, progress_percentage := p\<rparr>
                       else r)
                 (enrollments d) = enrollments d"
    by (intro map_idI) auto
  then show ?thesis by (simp add: set_manual_progress_def)
qed

text \<open>
  When the pair has no enrollment row the set branch changes nothing at all: the update
  matches no row, and the notification is refused because the update is still
  uncommitted. The answer depends on the \<^verbatim>\<open>users\<close> row alone.
\<close>

lemma set_student_progress_no_row:
  assumes "instructor_required cu = None" and "owns_course d (cu_id cu) cid"
    and "input \<noteq> []" and "py_float input = Some p" and "\<not> out_of_range p"
    and "\<forall>e \<in> set (enrollments d). \<not> (course_id e = cid \<and> student_id e = sid)"
  shows "instructor_set_student_progress py_float delivered cu cid sid (Some input) d
           = (case find (\<lambda>u. u_id u = sid) (users d) of
                None \<Rightarrow> Inl ServerError
              | Some u \<Rightarrow> Inr \<lparr>reply_progress = p, reply_is_manual = True\<rparr>,
              d)"
  using assms(1-5) set_manual_progress_no_row [OF assms(6), of "bound_real p"]
  by (simp add: instructor_set_student_progress_def Let_def send_notification_def
        split: option.splits)

lemma users_99_11:
  "find (\<lambda>u. u_id u = 99) (users sample_db_approved) = None"
  "find (\<lambda>u. u_id u = 11) (users sample_db_approved) = Some \<lparr>u_id = 11, u_full_name = ''Bob''\<rparr>"
  "\<forall>e \<in> set (enrollments sample_db_approved). \<not> (course_id e = 1 \<and> student_id e = 99)"
  "\<forall>e \<in> set (enrollments sample_db_approved). \<not> (course_id e = 1 \<and> student_id e = 11)"
  "filter (\<lambda>e. course_id e = 1 \<and> student_id e = 99) (enrollments sample_db_approved) = []"
  "filter (\<lambda>u. u_id u = 99) (users sample_db_approved) = []"
  "filter (\<lambda>e. course_id e = 1 \<and> student_id e = 11) (enrollments sample_db_approved) = []"
  by code_simp+

text \<open>
  Claim C10. A valid manual value set for a pair without an enrollment row is meant to be
  answered with success and a notification to the student, no enrollment row being
  touched. For student id 99, which has no enrollment in \<^verbatim>\<open>CS101\<close> and no
  \<^verbatim>\<open>users\<close> row, the handler answers HTTP 500; for student 11, who has a \<^verbatim>\<open>users\<close>
  row and no enrollment, it answers success. In both cases the database afterwards is the
  database before: no enrollment row has changed and no notification has been stored.
\<close>

theorem set_progress_without_enrollment_evaluated:
  "filter (\<lambda>e. course_id e = 1 \<and> student_id e = 99) (enrollments sample_db_approved) = []
   \<and> filter (\<lambda>u. u_id u = 99) (users sample_db_approved) = []
   \<and> sample_py_float ''90'' = Some (Num 90)
   \<and> instructor_set_student_progress sample_py_float (\<lambda>u. True) instructor1 1 99 (Some ''90'')
        sample_db_approved
       = (Inl ServerError, sample_db_approved)
   \<and> filter (\<lambda>e. course_id e = 1 \<and> student_id e = 11) (enrollments sample_db_approved) = []
   \<and> instructor_set_student_progress sample_py_float (\<lambda>u. True) instructor1 1 11 (Some ''90'')
        sample_db_approved
       = (Inr \<lparr>reply_progress = Num 90, reply_is_manual = True\<rparr>, sample_db_approved)"
proof -
  have nonempty: "''90'' \<noteq> []" by simp
  note r99 = set_student_progress_no_row [where cu = instructor1
         and d = sample_db_approved and cid = 1 and input = "''90''"
         and py_float = sample_py_float and p = "Num 90" and delivered = "\<lambda>u. True"
         and sid = 99, OF instructor1_facts(1,2) nonempty instructor1_facts(3,4) users_99_11(3)]
  note r11 = set_student_progress_no_row [where cu = instructor1
         and d = sample_db_approved and cid = 1 and input = "''90''"
         and py_float = sample_py_float and p = "Num 90" and delivered = "\<lambda>u. True"
         and sid = 11, OF instructor1_facts(1,2) nonempty instructor1_facts(3,4) users_99_11(4)]
  have a: "instructor_set_student_progress sample_py_float (\<lambda>u. True) instructor1 1 99
             (Some ''90'') sample_db_approved = (Inl ServerError, sample_db_approved)"
    unfolding r99 users_99_11(1) by simp
  have b: "instructor_set_student_progress sample_py_float (\<lambda>u. True) instructor1 1 11
             (Some ''90'') sample_db_approved
       = (Inr \<lparr>reply_progress = Num 90, reply_is_manual = True\<rparr>, sample_db_approved)"
    unfolding r11 users_99_11(2) by simp
  from users_99_11(5,6) instructor1_facts(3) a users_99_11(7) b
  show ?thesis by (intro conjI)
qed

subsection \<open>Automatic progress\<close>

lemma total_quizzes_query_init_db:
  "assignments_columns d = init_db_assignments_columns \<Longrightarrow>
     total_quizzes_query d cid = Inl (OperationalError ''no such column: is_active'')"
  by (simp add: total_quizzes_query_def check_assignments_columns_def
        init_db_assignments_columns_def)

lemma update_student_progress_try_init_db:
  "assignments_columns d = init_db_assignments_columns \<Longrightarrow>
     update_student_progress_try d sid cid
       = Inl (OperationalError ''no such column: is_active'')"
  by (simp add: update_student_progress_try_def total_quizzes_query_init_db)

lemma update_student_progress_absorbs:
  "update_student_progress_try d sid cid = Inl ex \<Longrightarrow> update_student_progress d sid cid = (0, d)"
  by (simp add: update_student_progress_def)

lemma update_student_progress_init_db:
  "assignments_columns d = init_db_assignments_columns \<Longrightarrow>
     update_student_progress d sid cid = (0, d)"
  by (rule update_student_progress_absorbs) (rule update_student_progress_try_init_db)

text \<open>
  On a database whose \<^verbatim>\<open>assignments\<close> table has the four columns the two counting
  statements name, the body runs to its end: the automatic value is 0 without active
  quizzes and the ratio of submitted to active quizzes times 100 otherwise, it is stored
  for the rows of the pair, and the override of the first row of the pair, when there is
  one, is what the function returns.
\<close>

lemma update_student_progress_queries_run:
  fixes d :: db and sid cid :: nat
  assumes "{''id'', ''course_id'', ''assignment_type'', ''is_active''}
             \<subseteq> set (assignments_columns d)"
  defines "n_total \<equiv> length (filter (\<lambda>a. a_course_id a = cid \<and> assignment_type a = ''quiz''
                                         \<and> a_is_active a) (assignments d))"
    and "n_submitted \<equiv> length (remdups (map a_id
                 (filter (\<lambda>a. a_course_id a = cid \<and> assignment_type a = ''quiz''
                             \<and> a_is_active a
                             \<and> (\<exists>sub \<in> set (assignment_submissions d).
                                   a_id a = s_assignment_id sub \<and> s_student_id sub = sid))
                         (assignments d))))"
  defines "auto_progress \<equiv>
             (if n_total = 0 then 0 else (of_nat n_submitted / of_nat n_total) * 100)"
  shows "update_student_progress d sid cid
           = (case find (\<lambda>e. student_id e = sid \<and> course_id e = cid) (enrollments d) of
                None \<Rightarrow> auto_progress
              | Some e \<Rightarrow> (case manual_progress_override e of
                             Some m \<Rightarrow> m | None \<Rightarrow> auto_progress),
              d\<lparr>enrollments :=
                  map (\<lambda>r. if student_id r = sid \<and> course_id r = cid
                           then r\<lparr>progress_percentage := Some auto_progress\<rparr> else r)
                      (enrollments d)\<rparr>)"
proof -
  from assms(1) have ok: "check_assignments_columns d cols = Inr ()"
    if "set cols \<subseteq> {''id'', ''course_id'', ''assignment_type'', ''is_active''}" for cols
  proof -
    from that assms(1) have "filter (\<lambda>c. c \<notin> set (assignments_columns d)) cols = []"
      by (auto simp: filter_empty_conv)
    then show ?thesis by (simp add: check_assignments_columns_def)
  qed
  have t: "total_quizzes_query d cid = Inr n_total"
    unfolding total_quizzes_query_def n_total_def by (subst ok) simp_all
  have s: "submitted_quizzes_query d cid sid = Inr n_submitted"
    unfolding submitted_quizzes_query_def n_submitted_def by (subst ok) simp_all
  have a: "(if n_total = 0 then Inr 0
            else (case submitted_quizzes_query d cid sid of
                    Inl ex \<Rightarrow> Inl ex
                  | Inr k \<Rightarrow> Inr ((of_nat k / of_nat n_total) * 100)))
           = (Inr auto_progress :: py_exception + rat)"
    unfolding auto_progress_def by (simp add: s)
  show ?thesis
    unfolding update_student_progress_def update_student_progress_try_def Let_def t
    by (simp add: a)
qed

lemma sample_db_approved_schema:
  "assignments_columns sample_db_approved = init_db_assignments_columns"
  by code_simp

lemma sample_db_quizzes:
  "length (filter (\<lambda>a. a_course_id a = 1 \<and> assignment_type a = ''quiz'' \<and> a_is_active a)
             (assignments sample_db_approved)) = 4"
  "length (remdups (map a_id
             (filter (\<lambda>a. a_course_id a = 1 \<and> assignment_type a = ''quiz'' \<and> a_is_active a
                          \<and> (\<exists>sub \<in> set (assignment_submissions sample_db_approved).
                                a_id a = s_assignment_id sub \<and> s_student_id sub = 10))
                     (assignments sample_db_approved)))) = 3"
  by code_simp+

text \<open>
  Claim C4. Recomputation is meant to yield 0 for a course without active quizzes and the
  ratio of submitted to active quizzes times 100 otherwise, to store it in
  \<^verbatim>\<open>progress_percentage\<close> and to return the override when one is set. On a database
  laid out by \<^verbatim>\<open>init_db\<close> the table \<^verbatim>\<open>assignments\<close> has no column
  \<^verbatim>\<open>is_active\<close>, the first counting statement raises, and the function returns 0 and
  stores nothing: for student 10 with three of the four quizzes of the course submitted
  the claim gives 75.
\<close>

theorem update_student_progress_on_init_db_schema:
  "assignments_columns sample_db_approved = init_db_assignments_columns
   \<and> length (filter (\<lambda>a. a_course_id a = 1 \<and> assignment_type a = ''quiz'' \<and> a_is_active a)
               (assignments sample_db_approved)) = 4
   \<and> length (remdups (map a_id
               (filter (\<lambda>a. a_course_id a = 1 \<and> assignment_type a = ''quiz'' \<and> a_is_active a
                            \<and> (\<exists>sub \<in> set (assignment_submissions sample_db_approved).
                                  a_id a = s_assignment_id sub \<and> s_student_id sub = 10))
                       (assignments sample_db_approved)))) = 3
   \<and> update_student_progress sample_db_approved 10 1 = (0, sample_db_approved)"
  using sample_db_approved_schema sample_db_quizzes
    update_student_progress_init_db [OF sample_db_approved_schema, of 10 1]
  by (intro conjI)

subsection \<open>Clearing a manual override\<close>

lemma clear_override_absorbs:
  assumes "instructor_required cu = None" and "owns_course d (cu_id cu) cid"
    and "update_student_progress_try (clear_manual_progress cid sid d) sid cid = Inl ex"
  shows "instructor_set_student_progress py_float delivered cu cid sid None d
           = (Inr \<lparr>reply_progress = Num 0, reply_is_manual = False\<rparr>,
              snd (send_notification False delivered sid ''Course Progress Updated'' ''info''
                     (Some cid) (clear_manual_progress cid sid d)))"
  using assms(1,2) update_student_progress_absorbs [OF assms(3)]
  by (simp add: instructor_set_student_progress_def)

lemma clear_override_init_db:
  assumes "instructor_required cu = None" and "owns_course d (cu_id cu) cid"
    and "assignments_columns d = init_db_assignments_columns"
  shows "instructor_set_student_progress py_float delivered cu cid sid None d
           = (Inr \<lparr>reply_progress = Num 0, reply_is_manual = False\<rparr>,
              snd (send_notification False delivered sid ''Course Progress Updated'' ''info''
                     (Some cid) (clear_manual_progress cid sid d)))"
proof -
  from assms(3)
  have "assignments_columns (clear_manual_progress cid sid d) = init_db_assignments_columns"
    by (simp add: clear_manual_progress_def)
  then have "update_student_progress_try (clear_manual_progress cid sid d) sid cid
               = Inl (OperationalError ''no such column: is_active'')"
    by (rule update_student_progress_try_init_db)
  with assms(1,2) show ?thesis by (rule clear_override_absorbs)
qed

lemma sample_db_overridden_eq:
  "sample_db_overridden = set_manual_progress 1 10 (Some 90) sample_db_approved"
  using instructor1_facts(1,2,3,4,6)
  by (simp add: sample_db_overridden_def instructor_set_student_progress_def Let_def
        send_notification_def split: option.splits)

lemma sample_db_overridden_rows:
  "enrollments sample_db_overridden
     = [\<lparr>e_id = 1, student_id = 10, course_id = 1, status = Approved, enrolled_at = 5,
         approved_at = Some 7, progress_percentage = Some 90,
         manual_progress_override = Some 90\<rparr>]"
  unfolding sample_db_overridden_eq set_manual_progress_def
  by (simp add: sample_db_approved_rows)

lemma sample_db_overridden_facts:
  "instructor_required instructor1 = None"
  "owns_course sample_db_overridden (cu_id instructor1) 1"
  "assignments_columns sample_db_overridden = init_db_assignments_columns"
proof -
  show "instructor_required instructor1 = None" by (rule instructor1_facts(1))
  from instructor1_facts(2) show "owns_course sample_db_overridden (cu_id instructor1) 1"
    unfolding sample_db_overridden_eq by (simp add: owns_course_def set_manual_progress_def)
  from sample_db_approved_schema
  show "assignments_columns sample_db_overridden = init_db_assignments_columns"
    unfolding sample_db_overridden_eq by (simp add: set_manual_progress_def)
qed

text \<open>
  Claim C8. Clearing the override is meant to null \<^verbatim>\<open>manual_progress_override\<close>,
  recompute, return the fresh automatic value and leave the display value equal to it.
  On the database of \<^verbatim>\<open>init_db\<close>, with student 10 at three of four quizzes and a
  manual value of 90: the override is nulled, the recomputation fails inside
  \<^verbatim>\<open>update_student_progress\<close>, the handler answers success with progress 0, and the row
  keeps \<^verbatim>\<open>progress_percentage\<close> 90, which is then the display value. The automatic
  value is 75.
\<close>

theorem clear_override_on_init_db_schema:
  "enrollments sample_db_overridden
     = [\<lparr>e_id = 1, student_id = 10, course_id = 1, status = Approved, enrolled_at = 5,
         approved_at = Some 7, progress_percentage = Some 90,
         manual_progress_override = Some 90\<rparr>]
   \<and> fst (instructor_set_student_progress sample_py_float (\<lambda>u. True) instructor1 1 10 None
            sample_db_overridden)
       = Inr \<lparr>reply_progress = Num 0, reply_is_manual = False\<rparr>
   \<and> enrollments (snd (instructor_set_student_progress sample_py_float (\<lambda>u. True) instructor1
                         1 10 None sample_db_overridden))
       = [\<lparr>e_id = 1, student_id = 10, course_id = 1, status = Approved, enrolled_at = 5,
           approved_at = Some 7, progress_percentage = Some 90,
           manual_progress_override = None\<rparr>]
   \<and> map display_progress
         (enrollments (snd (instructor_set_student_progress sample_py_float (\<lambda>u. True)
                              instructor1 1 10 None sample_db_overridden))) = [Some 90]"
proof -
  note r = clear_override_init_db [OF sample_db_overridden_facts,
             of sample_py_float "\<lambda>u. True" 10]
  have rows: "enrollments (snd (instructor_set_student_progress sample_py_float (\<lambda>u. True)
                         instructor1 1 10 None sample_db_overridden))
       = [\<lparr>e_id = 1, student_id = 10, course_id = 1, status = Approved, enrolled_at = 5,
           approved_at = Some 7, progress_percentage = Some 90,
           manual_progress_override = None\<rparr>]"
    unfolding r snd_conv enrollments_send_notification clear_manual_progress_def
    by (simp add: sample_db_overridden_rows)
  have shown: "map display_progress
         (enrollments (snd (instructor_set_student_progress sample_py_float (\<lambda>u. True)
                              instructor1 1 10 None sample_db_overridden))) = [Some 90]"
    unfolding rows by (simp add: display_progress_def)
  have reply: "fst (instructor_set_student_progress sample_py_float (\<lambda>u. True) instructor1 1
                 10 None sample_db_overridden)
       = Inr \<lparr>reply_progress = Num 0, reply_is_manual = False\<rparr>"
    unfolding r by simp
  from sample_db_overridden_rows reply rows shown show ?thesis by (intro conjI)
qed

subsection \<open>Failures\<close>

lemma set_student_progress_failure:
  "fst (instructor_set_student_progress py_float delivered cu cid sid progress d) = Inl err \<Longrightarrow>
     err \<noteq> ServerError \<Longrightarrow>
     snd (instructor_set_student_progress py_float delivered cu cid sid progress d) = d"
  by (auto simp: instructor_set_student_progress_def Let_def
        split: option.splits if_splits prod.splits)

lemma set_progress_bulk_failure:
  "fst (instructor_set_progress_bulk py_float delivered cu cid progress d) = Inl err \<Longrightarrow>
     snd (instructor_set_progress_bulk py_float delivered cu cid progress d) = d"
  by (auto simp: instructor_set_progress_bulk_def Let_def split: option.splits if_splits)

text \<open>
  Claim C9, as amended. The failures the handlers detect themselves (not logged in, wrong
  role, missing fields, \<open>NotFound\<close>, \<open>InvalidKey\<close>, \<open>AlreadyRequested\<close>, \<open>CourseFull\<close>,
  \<open>EnrollmentNotFound\<close>, \<open>AccessDenied\<close>, \<open>InvalidArgument\<close>) are answered as failures and
  leave the database unchanged. A failure during automatic progress recomputation is not
  surfaced: \<^verbatim>\<open>update_student_progress\<close> catches every exception of its body and returns
  0 with nothing stored, and the handler that clears an override then answers success with
  progress 0.
\<close>

theorem recompute_failure_absorbed:
  "(update_student_progress_try d sid cid = Inl ex \<longrightarrow>
      update_student_progress d sid cid = (0, d))
   \<and> (instructor_required cu = None \<and> owns_course d (cu_id cu) cid
        \<and> update_student_progress_try (clear_manual_progress cid sid d) sid cid = Inl ex \<longrightarrow>
        fst (instructor_set_student_progress py_float delivered cu cid sid None d)
          = Inr \<lparr>reply_progress = Num 0, reply_is_manual = False\<rparr>)
   \<and> (fst (student_enroll chk now su code enrollment_key d) = Inl err \<longrightarrow>
        snd (student_enroll chk now su code enrollment_key d) = d)
   \<and> (fst (instructor_approve_enrollment now cu enrollment_id d) = Inl err \<longrightarrow>
        snd (instructor_approve_enrollment now cu enrollment_id d) = d)
   \<and> (fst (instructor_reject_enrollment cu enrollment_id d) = Inl err \<longrightarrow>
        snd (instructor_reject_enrollment cu enrollment_id d) = d)
   \<and> (fst (instructor_block_student cu enrollment_id d) = Inl err \<longrightarrow>
        snd (instructor_block_student cu enrollment_id d) = d)
   \<and> (fst (instructor_unblock_student cu enrollment_id d) = Inl err \<longrightarrow>
        snd (instructor_unblock_student cu enrollment_id d) = d)
   \<and> (fst (instructor_remove_student cu enrollment_id d) = Inl err \<longrightarrow>
        snd (instructor_remove_student cu enrollment_id d) = d)
   \<and> (fst (instructor_set_progress_bulk py_float delivered cu cid progress d) = Inl err \<longrightarrow>
        snd (instructor_set_progress_bulk py_float delivered cu cid progress d) = d)
   \<and> (fst (instructor_set_student_progress py_float delivered cu cid sid progress d) = Inl err
        \<and> err \<noteq> ServerError \<longrightarrow>
        snd (instructor_set_student_progress py_float delivered cu cid sid progress d) = d)"
proof (intro conjI impI)
  assume "update_student_progress_try d sid cid = Inl ex"
  then show "update_student_progress d sid cid = (0, d)"
    by (rule update_student_progress_absorbs)
next
  assume "instructor_required cu = None \<and> owns_course d (cu_id cu) cid
        \<and> update_student_progress_try (clear_manual_progress cid sid d) sid cid = Inl ex"
  then have "instructor_set_student_progress py_float delivered cu cid sid None d
           = (Inr \<lparr>reply_progress = Num 0, reply_is_manual = False\<rparr>,
              snd (send_notification False delivered sid ''Course Progress Updated'' ''info''
                     (Some cid) (clear_manual_progress cid sid d)))"
    by (intro clear_override_absorbs) simp_all
  then show "fst (instructor_set_student_progress py_float delivered cu cid sid None d)
          = Inr \<lparr>reply_progress = Num 0, reply_is_manual = False\<rparr>"
    by simp
next
  assume "fst (student_enroll chk now su code enrollment_key d) = Inl err"
  then show "snd (student_enroll chk now su code enrollment_key d) = d"
    by (intro enroll_failure) simp
next
  assume "fst (instructor_approve_enrollment now cu enrollment_id d) = Inl err"
  then show "snd (instructor_approve_enrollment now cu enrollment_id d) = d"
    by (intro approve_failure) simp
next
  assume "fst (instructor_reject_enrollment cu enrollment_id d) = Inl err"
  then show "snd (instructor_reject_enrollment cu enrollment_id d) = d"
    by (intro reject_failure) simp
next
  assume "fst (instructor_block_student cu enrollment_id d) = Inl err"
  then show "snd (instructor_block_student cu enrollment_id d) = d"
    by (intro block_failure) simp
next
  assume "fst (instructor_unblock_student cu enrollment_id d) = Inl err"
  then show "snd (instructor_unblock_student cu enrollment_id d) = d"
    by (intro unblock_failure) simp
next
  assume "fst (instructor_remove_student cu enrollment_id d) = Inl err"
  then show "snd (instructor_remove_student cu enrollment_id d) = d"
    by (intro remove_failure) simp
next
  assume "fst (instructor_set_progress_bulk py_float delivered cu cid progress d) = Inl err"
  then show "snd (instructor_set_progress_bulk py_float delivered cu cid progress d) = d"
    by (rule set_progress_bulk_failure)
next
  assume "fst (instructor_set_student_progress py_float delivered cu cid sid progress d) = Inl err
        \<and> err \<noteq> ServerError"
  then show "snd (instructor_set_student_progress py_float delivered cu cid sid progress d) = d"
    by (intro set_student_progress_failure [of _ _ _ _ _ _ _ err]) simp_all
qed

lemma sample_db_approved_try:
  "update_student_progress_try sample_db_approved 10 1
     = Inl (OperationalError ''no such column: is_active'')"
  "update_student_progress_try (clear_manual_progress 1 10 sample_db_approved) 10 1
     = Inl (OperationalError ''no such column: is_active'')"
  using sample_db_approved_schema
  by (simp_all add: update_student_progress_try_init_db clear_manual_progress_def)

lemma sample_failures:
  "fst (student_enroll sample_check_password_hash 8 student11 ''CS101'' ''wrong''
          sample_db_approved) = Inl InvalidKey"
  "fst (instructor_approve_enrollment 9 instructor1 99 sample_db_approved)
     = Inl EnrollmentNotFound"
  "fst (instructor_set_student_progress sample_py_float (\<lambda>u. True) instructor1 1 10
          (Some ''150'') sample_db_approved) = Inl InvalidArgument"
  by code_simp+

theorem recompute_failure_absorbed_witness:
  "update_student_progress sample_db_approved 10 1 = (0, sample_db_approved)
   \<and> fst (instructor_set_student_progress sample_py_float (\<lambda>u. True) instructor1 1 10 None
            sample_db_approved)
       = Inr \<lparr>reply_progress = Num 0, reply_is_manual = False\<rparr>
   \<and> snd (student_enroll sample_check_password_hash 8 student11 ''CS101'' ''wrong''
            sample_db_approved) = sample_db_approved
   \<and> snd (instructor_approve_enrollment 9 instructor1 99 sample_db_approved)
       = sample_db_approved
   \<and> snd (instructor_set_student_progress sample_py_float (\<lambda>u. True) instructor1 1 10
            (Some ''150'') sample_db_approved) = sample_db_approved"
proof -
  have ne: "InvalidArgument \<noteq> ServerError" by simp
  note t1 = recompute_failure_absorbed [where d = sample_db_approved and sid = 10 and cid = 1
              and ex = "OperationalError ''no such column: is_active''" and cu = instructor1
              and py_float = sample_py_float and delivered = "\<lambda>u. True"]
  note t2 = recompute_failure_absorbed [where d = sample_db_approved
              and chk = sample_check_password_hash and now = 8 and su = student11
              and code = "''CS101''" and enrollment_key = "''wrong''" and err = InvalidKey]
  note t3 = recompute_failure_absorbed [where d = sample_db_approved and now = 9
              and cu = instructor1 and enrollment_id = 99 and err = EnrollmentNotFound]
  note t4 = recompute_failure_absorbed [where d = sample_db_approved and cu = instructor1
              and py_float = sample_py_float and delivered = "\<lambda>u. True" and cid = 1
              and sid = 10 and progress = "Some ''150''" and err = InvalidArgument]
  from t1 sample_db_approved_try(1)
  have a: "update_student_progress sample_db_approved 10 1 = (0, sample_db_approved)"
    by blast
  from t1 instructor1_facts(1,2) sample_db_approved_try(2)
  have b: "fst (instructor_set_student_progress sample_py_float (\<lambda>u. True) instructor1 1 10
                  None sample_db_approved)
       = Inr \<lparr>reply_progress = Num 0, reply_is_manual = False\<rparr>"
    by blast
  from t2 sample_failures(1)
  have c: "snd (student_enroll sample_check_password_hash 8 student11 ''CS101'' ''wrong''
            sample_db_approved) = sample_db_approved"
    by blast
  from t3 sample_failures(2)
  have e: "snd (instructor_approve_enrollment 9 instructor1 99 sample_db_approved)
       = sample_db_approved"
    by blast
  from t4 sample_failures(3) ne
  have f: "snd (instructor_set_student_progress sample_py_float (\<lambda>u. True) instructor1 1 10
            (Some ''150'') sample_db_approved) = sample_db_approved"
    by blast
  from a b c e f show ?thesis by (intro conjI)
qed

text \<open>
  The claim as first stated fails on the database of \<^verbatim>\<open>init_db\<close>: the body of
  \<^verbatim>\<open>update_student_progress\<close> raises, the function returns the number 0 like any
  other result, and the handler that called it to clear an override answers success.
\<close>

theorem recompute_failure_surfaced_counterexample:
  "update_student_progress_try (clear_manual_progress 1 10 sample_db_approved) 10 1
     = Inl (OperationalError ''no such column: is_active'')
   \<and> fst (update_student_progress (clear_manual_progress 1 10 sample_db_approved) 10 1) = 0
   \<and> fst (instructor_set_student_progress sample_py_float (\<lambda>u. True) instructor1 1 10 None
            sample_db_approved)
       = Inr \<lparr>reply_progress = Num 0, reply_is_manual = False\<rparr>"
proof -
  note e = sample_db_approved_try(2)
  have a: "fst (update_student_progress (clear_manual_progress 1 10 sample_db_approved) 10 1)
             = 0"
    unfolding update_student_progress_absorbs [OF e] by simp
  have b: "fst (instructor_set_student_progress sample_py_float (\<lambda>u. True) instructor1 1 10
                  None sample_db_approved)
       = Inr \<lparr>reply_progress = Num 0, reply_is_manual = False\<rparr>"
    unfolding clear_override_absorbs [OF instructor1_facts(1,2) e] by simp
  from e a b show ?thesis by (intro conjI)
qed

subsection \<open>The recomputation on a schema with the column\<close>

text \<open>
  Were the column \<^verbatim>\<open>is_active\<close> present in \<^verbatim>\<open>assignments\<close>, the same data would
  give student 10 the automatic value 75, returned and stored.
\<close>

lemma update_student_progress_with_column_sample:
  "fst (update_student_progress sample_db_with_is_active 10 1) = 75
   \<and> enrollments sample_db_recomputed
     = [\<lparr>e_id = 1, student_id = 10, course_id = 1, status = Approved, enrolled_at = 5,
         approved_at = Some 7, progress_percentage = Some 75,
         manual_progress_override = None\<rparr>]"
proof -
  have a: "fst (update_student_progress sample_db_with_is_active 10 1) = 75"
    by code_simp
  have b: "enrollments sample_db_recomputed
     = [\<lparr>e_id = 1, student_id = 10, course_id = 1, status = Approved, enrolled_at = 5,
         approved_at = Some 7, progress_percentage = Some 75,
         manual_progress_override = None\<rparr>]"
    by code_simp
  from a b show ?thesis by (intro conjI)
qed

end
